theory Spec2Isabelle
  imports Main "HOL-Library.Word" "HOL-Library.Monad_Syntax"
begin

section \<open>The FIDL JSON generator (system/host/fidl/lib/json\_generator.cpp)\<close>

text \<open>
  The generator walks a resolved library and appends JSON text to an output stream. The
  only state of a generator is that stream and the indent level, so every member function
  is a transformer of that state. A function result is \<open>None\<close> when the C++ does
  not return: the only loop that can fail to return is the indentation loop of
  \<open>EmitNewlineAndIndent\<close>, which counts a signed level down to zero.
\<close>

subsection \<open>The node kinds (types::, raw::)\<close>

text \<open>
  Modelled from the spec: the types of the namespaces \<open>types\<close>, \<open>raw\<close>
  and \<open>flat\<close> are declared in headers that are not part of the sources
  (fidl/json\_generator.h and the headers it includes). Each enumeration below has the
  enumerators that the \<open>switch\<close> over it lists, in that order; each node has the
  fields that the generator reads, with the types that the \<open>Generate\<close> overloads
  and section 3 of the specification give them (\<open>uint64_t\<close> sizes and offsets, a
  \<open>uint32_t\<close> ordinal).
\<close>

datatype PrimitiveSubtype =
  Int8 | Int16 | Int32 | Int64 | Uint8 | Uint16 | Uint32 | Uint64
  | Bool | Status | Float32 | Float64

datatype HandleSubtype =
  Handle | Process | Thread | Vmo | Channel | Event | Port | Interrupt | Iomap | Pci
  | Log | Socket | Resource | Eventpair | Job | Vmar | Fifo | Hypervisor | Guest | Timer

datatype Nullability = Nullable | Nonnullable

datatype Literal_Kind =
  Literal_String | Literal_Numeric | Literal_True | Literal_False | Literal_Default

datatype Type_Kind =
  Type_Array | Type_Vector | Type_String | Type_Handle | Type_Request | Type_Primitive
  | Type_Identifier

datatype Constant_Kind = Constant_Identifier | Constant_Literal

text \<open>
  \<open>raw::Identifier\<close> is read only through \<open>location.data()\<close>, the text of the
  token; \<open>raw::CompoundIdentifier\<close> only through \<open>components\<close>.
\<close>

type_synonym StringView = string

datatype Identifier = Identifier (location_data: StringView)

datatype CompoundIdentifier = CompoundIdentifier (components: "Identifier list")

text \<open>
  The subclasses of \<open>raw::Literal\<close>, \<open>raw::Constant\<close> and \<open>raw::Type\<close>, one
  constructor per subclass, with the fields the generator reads. A \<open>unique_ptr\<close> the
  code dereferences without a test is the pointee; one it tests first
  (\<open>maybe_element_count\<close>) is an option.
\<close>

datatype Literal =
  StringLiteral StringView
  | NumericLiteral StringView
  | TrueLiteral
  | FalseLiteral
  | DefaultLiteral

datatype Constant =
  IdentifierConstant CompoundIdentifier
  | LiteralConstant Literal

datatype Type =
  ArrayType Type Constant
  | VectorType Type "Constant option" Nullability
  | StringType "Constant option" Nullability
  | HandleType HandleSubtype Nullability
  | RequestType CompoundIdentifier Nullability
  | PrimitiveType PrimitiveSubtype
  | IdentifierType CompoundIdentifier Nullability

fun Literal_kind :: "Literal \<Rightarrow> Literal_Kind" where
  "Literal_kind (StringLiteral _) = Literal_String"
| "Literal_kind (NumericLiteral _) = Literal_Numeric"
| "Literal_kind TrueLiteral = Literal_True"
| "Literal_kind FalseLiteral = Literal_False"
| "Literal_kind DefaultLiteral = Literal_Default"

fun Constant_kind :: "Constant \<Rightarrow> Constant_Kind" where
  "Constant_kind (IdentifierConstant _) = Constant_Identifier"
| "Constant_kind (LiteralConstant _) = Constant_Literal"

fun Type_kind :: "Type \<Rightarrow> Type_Kind" where
  "Type_kind (ArrayType _ _) = Type_Array"
| "Type_kind (VectorType _ _ _) = Type_Vector"
| "Type_kind (StringType _ _) = Type_String"
| "Type_kind (HandleType _ _) = Type_Handle"
| "Type_kind (RequestType _ _) = Type_Request"
| "Type_kind (PrimitiveType _) = Type_Primitive"
| "Type_kind (IdentifierType _ _) = Type_Identifier"

subsection \<open>The resolved library (flat::)\<close>

text \<open>
  \<open>LongName\<close> reads a \<open>flat::Name\<close> through \<open>name.get()->location.data()\<close>, so
  a Name is the identifier it holds.
\<close>

datatype Name = Name (get: Identifier)

record Const =
  Const_name :: Name
  Const_type :: Type
  Const_value :: Constant

record Enum_Member =
  Enum_Member_name :: Identifier
  Enum_Member_value :: Constant

record Enum =
  Enum_name :: Name
  Enum_type :: Type
  Enum_members :: "Enum_Member list"

record Parameter =
  Parameter_type :: Type
  Parameter_name :: Identifier
  Parameter_offset :: "64 word"

record Method =
  Method_ordinal :: "32 word"
  Method_name :: Identifier
  Method_has_request :: bool
  Method_maybe_request :: "Parameter list"
  Method_maybe_request_size :: "64 word"
  Method_has_response :: bool
  Method_maybe_response :: "Parameter list"
  Method_maybe_response_size :: "64 word"

record Interface =
  Interface_name :: Name
  Interface_methods :: "Method list"

record Struct_Member =
  Struct_Member_type :: Type
  Struct_Member_name :: Identifier
  Struct_Member_maybe_default_value :: "Constant option"
  Struct_Member_offset :: "64 word"

record Struct =
  Struct_name :: Name
  Struct_members :: "Struct_Member list"
  Struct_size :: "64 word"

record Union_Member =
  Union_Member_type :: Type
  Union_Member_name :: Identifier
  Union_Member_offset :: "64 word"

record Union =
  Union_name :: Name
  Union_members :: "Union_Member list"
  Union_size :: "64 word"

record Library =
  library_name :: StringView
  const_declarations :: "Const list"
  enum_declarations :: "Enum list"
  interface_declarations :: "Interface list"
  struct_declarations :: "Struct list"
  union_declarations :: "Union list"
  declaration_order :: "Name list"

subsection \<open>Names of the kinds\<close>

definition kIndent :: string where
  "kIndent = ''  ''"

definition LongName :: "Name \<Rightarrow> string" where
  "LongName name = location_data (get name)"

fun PrimitiveSubtypeName :: "PrimitiveSubtype \<Rightarrow> string" where
  "PrimitiveSubtypeName Int8 = ''int8''"
| "PrimitiveSubtypeName Int16 = ''int16''"
| "PrimitiveSubtypeName Int32 = ''int32''"
| "PrimitiveSubtypeName Int64 = ''int64''"
| "PrimitiveSubtypeName Uint8 = ''uint8''"
| "PrimitiveSubtypeName Uint16 = ''uint16''"
| "PrimitiveSubtypeName Uint32 = ''uint32''"
| "PrimitiveSubtypeName Uint64 = ''uint64''"
| "PrimitiveSubtypeName Bool = ''bool''"
| "PrimitiveSubtypeName Status = ''status''"
| "PrimitiveSubtypeName Float32 = ''float32''"
| "PrimitiveSubtypeName Float64 = ''float64''"

fun HandleSubtypeName :: "HandleSubtype \<Rightarrow> string" where
  "HandleSubtypeName Handle = ''handle''"
| "HandleSubtypeName Process = ''process''"
| "HandleSubtypeName Thread = ''thread''"
| "HandleSubtypeName Vmo = ''vmo''"
| "HandleSubtypeName Channel = ''channel''"
| "HandleSubtypeName Event = ''event''"
| "HandleSubtypeName Port = ''port''"
| "HandleSubtypeName Interrupt = ''interrupt''"
| "HandleSubtypeName Iomap = ''iomap''"
| "HandleSubtypeName Pci = ''pci''"
| "HandleSubtypeName Log = ''log''"
| "HandleSubtypeName Socket = ''socket''"
| "HandleSubtypeName Resource = ''resource''"
| "HandleSubtypeName Eventpair = ''eventpair''"
| "HandleSubtypeName Job = ''job''"
| "HandleSubtypeName Vmar = ''vmar''"
| "HandleSubtypeName Fifo = ''fifo''"
| "HandleSubtypeName Hypervisor = ''hypervisor''"
| "HandleSubtypeName Guest = ''guest''"
| "HandleSubtypeName Timer = ''timer''"

fun LiteralKindName :: "Literal_Kind \<Rightarrow> string" where
  "LiteralKindName Literal_String = ''string''"
| "LiteralKindName Literal_Numeric = ''numeric''"
| "LiteralKindName Literal_True = ''true''"
| "LiteralKindName Literal_False = ''false''"
| "LiteralKindName Literal_Default = ''default''"

fun TypeKindName :: "Type_Kind \<Rightarrow> string" where
  "TypeKindName Type_Array = ''array''"
| "TypeKindName Type_Vector = ''vector''"
| "TypeKindName Type_String = ''string''"
| "TypeKindName Type_Handle = ''handle''"
| "TypeKindName Type_Request = ''request''"
| "TypeKindName Type_Primitive = ''primitive''"
| "TypeKindName Type_Identifier = ''identifier''"

fun ConstantKindName :: "Constant_Kind \<Rightarrow> string" where
  "ConstantKindName Constant_Identifier = ''identifier''"
| "ConstantKindName Constant_Literal = ''literal''"

subsection \<open>The Emit functions: the only writers of the stream\<close>

text \<open>
  The stream is the text written so far; every Emit function returns the stream with its
  own text appended.
\<close>

definition EmitBoolean :: "string \<Rightarrow> bool \<Rightarrow> string" where
  "EmitBoolean file v = (if v then file @ ''true'' else file @ ''false'')"

text \<open>The loop of \<open>EmitString\<close> over the characters of \<open>value\<close>.\<close>

fun EmitString_loop :: "string \<Rightarrow> StringView \<Rightarrow> string" where
  "EmitString_loop file [] = file"
| "EmitString_loop file (c # cs) =
     EmitString_loop
       (if c = CHR 0x22 then file @ [CHR 0x5C, CHR 0x22]
        else if c = CHR 0x5C then file @ [CHR 0x5C, CHR 0x5C]
        else file @ [c]) cs"

definition EmitString :: "string \<Rightarrow> StringView \<Rightarrow> string" where
  "EmitString file v = EmitString_loop (file @ [CHR 0x22]) v @ [CHR 0x22]"

definition EmitLiteral :: "string \<Rightarrow> StringView \<Rightarrow> string" where
  "EmitLiteral file v = file @ v"

text \<open>
  \<open>operator<<\<close> on an unsigned integer writes its decimal digits (the stream's
  default base), most significant first.
\<close>

fun decimal :: "nat \<Rightarrow> string" where
  "decimal n =
     (if n < 10 then [char_of (48 + n)]
      else decimal (n div 10) @ [char_of (48 + n mod 10)])"

declare decimal.simps [simp del]

definition EmitUint32 :: "string \<Rightarrow> 32 word \<Rightarrow> string" where
  "EmitUint32 file v = file @ decimal (unat v)"

definition EmitUint64 :: "string \<Rightarrow> 64 word \<Rightarrow> string" where
  "EmitUint64 file v = file @ decimal (unat v)"

definition EmitNewline :: "string \<Rightarrow> string" where
  "EmitNewline file = file @ ''\<newline>''"

text \<open>
  \<open>while (indent_level--) *file << kIndent;\<close> on a signed level: the loop runs
  until the level is zero, which a negative level never reaches.
\<close>

partial_function (option) EmitNewlineAndIndent_loop :: "string \<Rightarrow> int \<Rightarrow> string option" where
  "EmitNewlineAndIndent_loop file indent_level =
     (if indent_level \<noteq> 0
      then EmitNewlineAndIndent_loop (file @ kIndent) (indent_level - 1)
      else Some file)"

declare EmitNewlineAndIndent_loop.simps [code]

definition EmitNewlineAndIndent :: "string \<Rightarrow> int \<Rightarrow> string option" where
  "EmitNewlineAndIndent file indent_level =
     EmitNewlineAndIndent_loop (file @ ''\<newline>'') indent_level"

definition EmitObjectBegin :: "string \<Rightarrow> string" where
  "EmitObjectBegin file = file @ ''{''"

definition EmitObjectSeparator :: "string \<Rightarrow> int \<Rightarrow> string option" where
  "EmitObjectSeparator file indent_level = EmitNewlineAndIndent (file @ '','') indent_level"

definition EmitObjectEnd :: "string \<Rightarrow> string" where
  "EmitObjectEnd file = file @ ''}''"

definition EmitObjectKey :: "string \<Rightarrow> int \<Rightarrow> StringView \<Rightarrow> string" where
  "EmitObjectKey file indent_level key = EmitString file key @ '': ''"

definition EmitArrayBegin :: "string \<Rightarrow> string" where
  "EmitArrayBegin file = file @ ''[''"

definition EmitArraySeparator :: "string \<Rightarrow> int \<Rightarrow> string option" where
  "EmitArraySeparator file indent_level = EmitNewlineAndIndent (file @ '','') indent_level"

definition EmitArrayEnd :: "string \<Rightarrow> string" where
  "EmitArrayEnd file = file @ '']''"

subsection \<open>The generator state and its statements\<close>

text \<open>
  \<open>JSONGenerator\<close> holds the stream \<open>json_file_\<close> and the counter
  \<open>indent_level_\<close> (a C++ \<open>int\<close>, modelled as an unbounded integer: the level is
  bounded by the nesting depth of the library). A member function is an \<open>action\<close> on
  that state.
\<close>

record JSONGenerator =
  json_file :: string
  indent_level :: int

type_synonym action = "JSONGenerator \<Rightarrow> JSONGenerator option"

text \<open>A statement sequence \<open>{ s1; s2; ... }\<close>, the empty statement, and the calls
  \<open>Emit...(&json_file_, ...)\<close>, \<open>Emit...(&json_file_, indent_level_)\<close>,
  \<open>++indent_level_\<close> and \<open>--indent_level_\<close>.\<close>

fun block :: "action list \<Rightarrow> action" where
  "block [] g = Some g"
| "block (s # ss) g = (case s g of None \<Rightarrow> None | Some g' \<Rightarrow> block ss g')"

definition skip :: action where
  "skip g = Some g"

definition emit :: "(string \<Rightarrow> string) \<Rightarrow> action" where
  "emit Emit g = Some (g\<lparr>json_file := Emit (json_file g)\<rparr>)"

definition emit_at_indent_level :: "(string \<Rightarrow> int \<Rightarrow> string option) \<Rightarrow> action" where
  "emit_at_indent_level Emit g =
     (case Emit (json_file g) (indent_level g) of
        None \<Rightarrow> None
      | Some file \<Rightarrow> Some (g\<lparr>json_file := file\<rparr>))"

definition emit_key :: "StringView \<Rightarrow> action" where
  "emit_key key g = emit (\<lambda>file. EmitObjectKey file (indent_level g) key) g"

definition increment_indent_level :: action where
  "increment_indent_level g = Some (g\<lparr>indent_level := indent_level g + 1\<rparr>)"

definition decrement_indent_level :: action where
  "decrement_indent_level g = Some (g\<lparr>indent_level := indent_level g - 1\<rparr>)"

datatype Position = First | Subsequent

text \<open>
  Modelled from the spec: the default argument of the parameter \<open>position\<close> of
  \<open>GenerateObjectMember\<close> is declared in fidl/json\_generator.h, which is not part of
  the sources. Every call that writes a member after the first one omits the argument,
  and the object rule separates such members by a comma, which is what
  \<open>Position::Subsequent\<close> emits.
\<close>

definition default_position :: Position where
  "default_position = Subsequent"

subsection \<open>The structural builder\<close>

definition GenerateEOF :: action where
  "GenerateEOF = emit EmitNewline"

function GenerateArray_loop :: "('a \<Rightarrow> action) \<Rightarrow> 'a list \<Rightarrow> nat \<Rightarrow> action" where
  "GenerateArray_loop Generate collection i g =
     (if i < length collection
      then (case (if i \<noteq> 0 then emit_at_indent_level EmitArraySeparator g else Some g) of
              None \<Rightarrow> None
            | Some g' \<Rightarrow>
                (case Generate (collection ! i) g' of
                   None \<Rightarrow> None
                 | Some g'' \<Rightarrow> GenerateArray_loop Generate collection (Suc i) g''))
      else Some g)"
  by pat_completeness auto
termination
  by (relation "measure (\<lambda>(Generate, collection, i, g). length collection - i)") auto

declare GenerateArray_loop.simps [simp del]

definition GenerateArray :: "('a \<Rightarrow> action) \<Rightarrow> 'a list \<Rightarrow> action" where
  "GenerateArray Generate collection =
     block
      [emit EmitArrayBegin,
       (if collection \<noteq> []
        then block [increment_indent_level, emit_at_indent_level EmitNewlineAndIndent]
        else skip),
       GenerateArray_loop Generate collection 0,
       (if collection \<noteq> []
        then block [decrement_indent_level, emit_at_indent_level EmitNewlineAndIndent]
        else skip),
       emit EmitArrayEnd]"

definition GenerateObject :: "action \<Rightarrow> action" where
  "GenerateObject callback g =
     (let original_indent_level = indent_level g in
      block
       [emit EmitObjectBegin,
        callback,
        (\<lambda>g'. if indent_level g' > original_indent_level
              then block [decrement_indent_level, emit_at_indent_level EmitNewlineAndIndent] g'
              else Some g'),
        emit EmitObjectEnd] g)"

definition GenerateObjectMember :: "StringView \<Rightarrow> action \<Rightarrow> Position \<Rightarrow> action" where
  "GenerateObjectMember key Generate_value position =
     block
      [(case position of
          First \<Rightarrow> block [increment_indent_level, emit_at_indent_level EmitNewlineAndIndent]
        | Subsequent \<Rightarrow> emit_at_indent_level EmitObjectSeparator),
       emit_key key,
       Generate_value]"

subsection \<open>The node mapper: one Generate per node kind\<close>

definition Generate_vector :: "('a \<Rightarrow> action) \<Rightarrow> 'a list \<Rightarrow> action" where
  "Generate_vector Generate v = GenerateArray Generate v"

definition Generate_bool :: "bool \<Rightarrow> action" where
  "Generate_bool v = emit (\<lambda>file. EmitBoolean file v)"

definition Generate_StringView :: "StringView \<Rightarrow> action" where
  "Generate_StringView v = emit (\<lambda>file. EmitString file v)"

definition Generate_uint64 :: "64 word \<Rightarrow> action" where
  "Generate_uint64 v = emit (\<lambda>file. EmitUint64 file v)"

definition Generate_HandleSubtype :: "HandleSubtype \<Rightarrow> action" where
  "Generate_HandleSubtype v = emit (\<lambda>file. EmitString file (HandleSubtypeName v))"

definition Generate_Nullability :: "Nullability \<Rightarrow> action" where
  "Generate_Nullability v =
     (case v of
        Nullable \<Rightarrow> emit (\<lambda>file. EmitBoolean file True)
      | Nonnullable \<Rightarrow> emit (\<lambda>file. EmitBoolean file False))"

definition Generate_PrimitiveSubtype :: "PrimitiveSubtype \<Rightarrow> action" where
  "Generate_PrimitiveSubtype v = emit (\<lambda>file. EmitString file (PrimitiveSubtypeName v))"

definition Generate_Identifier :: "Identifier \<Rightarrow> action" where
  "Generate_Identifier v = emit (\<lambda>file. EmitString file (location_data v))"

definition Generate_CompoundIdentifier :: "CompoundIdentifier \<Rightarrow> action" where
  "Generate_CompoundIdentifier v = Generate_vector Generate_Identifier (components v)"

definition Generate_Literal :: "Literal \<Rightarrow> action" where
  "Generate_Literal v =
     GenerateObject
      (block
        [GenerateObjectMember ''kind'' (Generate_StringView (LiteralKindName (Literal_kind v)))
           First,
         (case v of
            StringLiteral location \<Rightarrow>
              block
               [emit_at_indent_level EmitObjectSeparator,
                emit_key ''value'',
                emit (\<lambda>file. EmitLiteral file location)]
          | NumericLiteral location \<Rightarrow>
              GenerateObjectMember ''value'' (Generate_StringView location) default_position
          | TrueLiteral \<Rightarrow> skip
          | FalseLiteral \<Rightarrow> skip
          | DefaultLiteral \<Rightarrow> skip)])"

definition Generate_Constant :: "Constant \<Rightarrow> action" where
  "Generate_Constant v =
     GenerateObject
      (block
        [GenerateObjectMember ''kind'' (Generate_StringView (ConstantKindName (Constant_kind v)))
           First,
         (case v of
            IdentifierConstant identifier \<Rightarrow>
              GenerateObjectMember ''identifier'' (Generate_CompoundIdentifier identifier)
                default_position
          | LiteralConstant literal \<Rightarrow>
              GenerateObjectMember ''literal'' (Generate_Literal literal) default_position)])"

text \<open>
  \<open>Generate(const raw::Type&)\<close> recurses into the element type of an array and of a
  vector, so it is given by one equation per case of its \<open>switch\<close>; the kind member
  comes first in each.
\<close>

fun Generate_Type :: "Type \<Rightarrow> action" where
  "Generate_Type (ArrayType element_type element_count) =
     GenerateObject
      (block
        [GenerateObjectMember ''kind''
           (Generate_StringView
             (TypeKindName (Type_kind (ArrayType element_type element_count)))) First,
         block
          [GenerateObjectMember ''element_type'' (Generate_Type element_type) default_position,
           GenerateObjectMember ''element_count'' (Generate_Constant element_count)
             default_position]])"
| "Generate_Type (VectorType element_type maybe_element_count nullability) =
     GenerateObject
      (block
        [GenerateObjectMember ''kind''
           (Generate_StringView
             (TypeKindName (Type_kind (VectorType element_type maybe_element_count nullability))))
           First,
         block
          [GenerateObjectMember ''element_type'' (Generate_Type element_type) default_position,
           (case maybe_element_count of
              Some element_count \<Rightarrow>
                GenerateObjectMember ''maybe_element_count'' (Generate_Constant element_count)
                  default_position
            | None \<Rightarrow> skip),
           GenerateObjectMember ''nullable'' (Generate_Nullability nullability)
             default_position]])"
| "Generate_Type (StringType maybe_element_count nullability) =
     GenerateObject
      (block
        [GenerateObjectMember ''kind''
           (Generate_StringView
             (TypeKindName (Type_kind (StringType maybe_element_count nullability)))) First,
         block
          [(case maybe_element_count of
              Some element_count \<Rightarrow>
                GenerateObjectMember ''maybe_element_count'' (Generate_Constant element_count)
                  default_position
            | None \<Rightarrow> skip),
           GenerateObjectMember ''nullable'' (Generate_Nullability nullability)
             default_position]])"
| "Generate_Type (HandleType subtype nullability) =
     GenerateObject
      (block
        [GenerateObjectMember ''kind''
           (Generate_StringView (TypeKindName (Type_kind (HandleType subtype nullability))))
           First,
         block
          [GenerateObjectMember ''subtype'' (Generate_HandleSubtype subtype) default_position,
           GenerateObjectMember ''nullable'' (Generate_Nullability nullability)
             default_position]])"
| "Generate_Type (RequestType subtype nullability) =
     GenerateObject
      (block
        [GenerateObjectMember ''kind''
           (Generate_StringView (TypeKindName (Type_kind (RequestType subtype nullability))))
           First,
         block
          [GenerateObjectMember ''subtype'' (Generate_CompoundIdentifier subtype)
             default_position,
           GenerateObjectMember ''nullable'' (Generate_Nullability nullability)
             default_position]])"
| "Generate_Type (PrimitiveType subtype) =
     GenerateObject
      (block
        [GenerateObjectMember ''kind''
           (Generate_StringView (TypeKindName (Type_kind (PrimitiveType subtype)))) First,
         block
          [GenerateObjectMember ''subtype'' (Generate_PrimitiveSubtype subtype)
             default_position]])"
| "Generate_Type (IdentifierType identifier nullability) =
     GenerateObject
      (block
        [GenerateObjectMember ''kind''
           (Generate_StringView
             (TypeKindName (Type_kind (IdentifierType identifier nullability)))) First,
         block
          [GenerateObjectMember ''identifier'' (Generate_CompoundIdentifier identifier)
             default_position,
           GenerateObjectMember ''nullable'' (Generate_Nullability nullability)
             default_position]])"

declare Generate_Type.simps [simp del]

definition Generate_Ordinal :: "32 word \<Rightarrow> action" where
  "Generate_Ordinal v = emit (\<lambda>file. EmitUint32 file v)"

definition Generate_Name :: "Name \<Rightarrow> action" where
  "Generate_Name v = emit (\<lambda>file. EmitString file (LongName v))"

definition Generate_Const :: "Const \<Rightarrow> action" where
  "Generate_Const v =
     GenerateObject
      (block
        [GenerateObjectMember ''name'' (Generate_Name (Const_name v)) First,
         GenerateObjectMember ''type'' (Generate_Type (Const_type v)) default_position,
         GenerateObjectMember ''value'' (Generate_Constant (Const_value v)) default_position])"

definition Generate_Enum_Member :: "Enum_Member \<Rightarrow> action" where
  "Generate_Enum_Member v =
     GenerateObject
      (block
        [GenerateObjectMember ''name'' (Generate_Identifier (Enum_Member_name v)) First,
         GenerateObjectMember ''value'' (Generate_Constant (Enum_Member_value v))
           default_position])"

definition Generate_Enum :: "Enum \<Rightarrow> action" where
  "Generate_Enum v =
     GenerateObject
      (block
        [GenerateObjectMember ''name'' (Generate_Name (Enum_name v)) First,
         (case Enum_type v of
            PrimitiveType subtype \<Rightarrow>
              GenerateObjectMember ''type'' (Generate_PrimitiveSubtype subtype) default_position
          | _ \<Rightarrow> skip),
         GenerateObjectMember ''members'' (Generate_vector Generate_Enum_Member (Enum_members v))
           default_position])"

definition Generate_Parameter :: "Parameter \<Rightarrow> action" where
  "Generate_Parameter v =
     GenerateObject
      (block
        [GenerateObjectMember ''type'' (Generate_Type (Parameter_type v)) First,
         GenerateObjectMember ''name'' (Generate_Identifier (Parameter_name v)) default_position,
         GenerateObjectMember ''offset'' (Generate_uint64 (Parameter_offset v))
           default_position])"

definition Generate_Method :: "Method \<Rightarrow> action" where
  "Generate_Method v =
     GenerateObject
      (block
        [GenerateObjectMember ''ordinal'' (Generate_Ordinal (Method_ordinal v)) First,
         GenerateObjectMember ''name'' (Generate_Identifier (Method_name v)) default_position,
         GenerateObjectMember ''has_request'' (Generate_bool (Method_has_request v))
           default_position,
         (if Method_has_request v
          then block
            [GenerateObjectMember ''maybe_request''
               (Generate_vector Generate_Parameter (Method_maybe_request v)) default_position,
             GenerateObjectMember ''maybe_request_size''
               (Generate_uint64 (Method_maybe_request_size v)) default_position]
          else skip),
         GenerateObjectMember ''has_response'' (Generate_bool (Method_has_response v))
           default_position,
         (if Method_has_response v
          then block
            [GenerateObjectMember ''maybe_response''
               (Generate_vector Generate_Parameter (Method_maybe_response v)) default_position,
             GenerateObjectMember ''maybe_response_size''
               (Generate_uint64 (Method_maybe_response_size v)) default_position]
          else skip)])"

definition Generate_Interface :: "Interface \<Rightarrow> action" where
  "Generate_Interface v =
     GenerateObject
      (block
        [GenerateObjectMember ''name'' (Generate_Name (Interface_name v)) First,
         GenerateObjectMember ''methods'' (Generate_vector Generate_Method (Interface_methods v))
           default_position])"

definition Generate_Struct_Member :: "Struct_Member \<Rightarrow> action" where
  "Generate_Struct_Member v =
     GenerateObject
      (block
        [GenerateObjectMember ''type'' (Generate_Type (Struct_Member_type v)) First,
         GenerateObjectMember ''name'' (Generate_Identifier (Struct_Member_name v))
           default_position,
         (case Struct_Member_maybe_default_value v of
            Some default_value \<Rightarrow>
              GenerateObjectMember ''maybe_default_value'' (Generate_Constant default_value)
                default_position
          | None \<Rightarrow> skip),
         GenerateObjectMember ''offset'' (Generate_uint64 (Struct_Member_offset v))
           default_position])"

definition Generate_Struct :: "Struct \<Rightarrow> action" where
  "Generate_Struct v =
     GenerateObject
      (block
        [GenerateObjectMember ''name'' (Generate_Name (Struct_name v)) First,
         GenerateObjectMember ''members''
           (Generate_vector Generate_Struct_Member (Struct_members v)) default_position,
         GenerateObjectMember ''size'' (Generate_uint64 (Struct_size v)) default_position])"

definition Generate_Union_Member :: "Union_Member \<Rightarrow> action" where
  "Generate_Union_Member v =
     GenerateObject
      (block
        [GenerateObjectMember ''type'' (Generate_Type (Union_Member_type v)) First,
         GenerateObjectMember ''name'' (Generate_Identifier (Union_Member_name v))
           default_position,
         GenerateObjectMember ''offset'' (Generate_uint64 (Union_Member_offset v))
           default_position])"

definition Generate_Union :: "Union \<Rightarrow> action" where
  "Generate_Union v =
     GenerateObject
      (block
        [GenerateObjectMember ''name'' (Generate_Name (Union_name v)) First,
         GenerateObjectMember ''members''
           (Generate_vector Generate_Union_Member (Union_members v)) default_position,
         GenerateObjectMember ''size'' (Generate_uint64 (Union_size v)) default_position])"

subsection \<open>The library serializer\<close>

definition GenerateDeclarationMapEntry :: "int \<Rightarrow> Name \<Rightarrow> StringView \<Rightarrow> action" where
  "GenerateDeclarationMapEntry count name decl =
     block
      [(if count = 0
        then block [increment_indent_level, emit_at_indent_level EmitNewlineAndIndent]
        else emit_at_indent_level EmitObjectSeparator),
       emit_key (LongName name),
       emit (\<lambda>file. EmitString file decl)]"

text \<open>
  One loop \<open>for (auto& decl : declarations) GenerateDeclarationMapEntry(count++,
  decl.name, kind)\<close> of the declaration map; the local \<open>count\<close> is threaded through
  the five loops with the generator.
\<close>

fun GenerateDeclarationMapEntries ::
  "('d \<Rightarrow> Name) \<Rightarrow> StringView \<Rightarrow> 'd list \<Rightarrow> int \<times> JSONGenerator
    \<Rightarrow> (int \<times> JSONGenerator) option" where
  "GenerateDeclarationMapEntries name decl [] (count, g) = Some (count, g)"
| "GenerateDeclarationMapEntries name decl (d # ds) (count, g) =
     (case GenerateDeclarationMapEntry count (name d) decl g of
        None \<Rightarrow> None
      | Some g' \<Rightarrow> GenerateDeclarationMapEntries name decl ds (count + 1, g'))"

text \<open>The callback of the inner \<open>GenerateObject\<close> of \<open>ProduceJSON\<close>, which writes
  the declaration map.\<close>

definition GenerateDeclarationMap :: "Library \<Rightarrow> action" where
  "GenerateDeclarationMap library g =
     do {
       c \<leftarrow> Some (0, g);
       c \<leftarrow> GenerateDeclarationMapEntries Const_name ''const'' (const_declarations library) c;
       c \<leftarrow> GenerateDeclarationMapEntries Enum_name ''enum'' (enum_declarations library) c;
       c \<leftarrow> GenerateDeclarationMapEntries Interface_name ''interface''
              (interface_declarations library) c;
       c \<leftarrow> GenerateDeclarationMapEntries Struct_name ''struct'' (struct_declarations library) c;
       c \<leftarrow> GenerateDeclarationMapEntries Union_name ''union'' (union_declarations library) c;
       Some (snd c)
     }"

text \<open>
  \<open>ProduceJSON\<close> resets the indent level and writes the document into the
  generator's stream. Its last statement moves the stream to the caller: the document
  handed out is \<open>json_file\<close> of the state it returns.
\<close>

definition ProduceJSON :: "Library \<Rightarrow> action" where
  "ProduceJSON library =
     block
      [(\<lambda>g. Some (g\<lparr>indent_level := 0\<rparr>)),
       GenerateObject
        (block
          [GenerateObjectMember ''name'' (Generate_StringView (library_name library)) First,
           GenerateObjectMember ''library_dependencies''
             (Generate_vector Generate_bool []) default_position,
           GenerateObjectMember ''const_declarations''
             (Generate_vector Generate_Const (const_declarations library)) default_position,
           GenerateObjectMember ''enum_declarations''
             (Generate_vector Generate_Enum (enum_declarations library)) default_position,
           GenerateObjectMember ''interface_declarations''
             (Generate_vector Generate_Interface (interface_declarations library))
             default_position,
           GenerateObjectMember ''struct_declarations''
             (Generate_vector Generate_Struct (struct_declarations library)) default_position,
           GenerateObjectMember ''union_declarations''
             (Generate_vector Generate_Union (union_declarations library)) default_position,
           GenerateObjectMember ''declaration_order''
             (Generate_vector Generate_Name (declaration_order library)) default_position,
           emit_at_indent_level EmitObjectSeparator,
           emit_key ''declarations'',
           GenerateObject (GenerateDeclarationMap library)]),
       GenerateEOF]"

section \<open>Vocabulary of the statements\<close>

text \<open>
  The texts the statements below speak about. A newline followed by the indentation of a
  level; the escaped rendering of a string in double quotes; the rule for arrays and the
  rule for objects; one \<open>"key": value\<close> member.
\<close>

definition newline_indent :: "int \<Rightarrow> string" where
  "newline_indent l = ''\<newline>'' @ concat (replicate (nat l) kIndent)"

fun escape :: "char \<Rightarrow> string" where
  "escape c =
     (if c = CHR 0x22 then [CHR 0x5C, CHR 0x22]
      else if c = CHR 0x5C then [CHR 0x5C, CHR 0x5C]
      else [c])"

definition quoted :: "string \<Rightarrow> string" where
  "quoted s = [CHR 0x22] @ concat (map escape s) @ [CHR 0x22]"

fun join :: "string \<Rightarrow> string list \<Rightarrow> string" where
  "join sep [] = []"
| "join sep [x] = x"
| "join sep (x # y # ys) = x @ sep @ join sep (y # ys)"

definition array_text :: "int \<Rightarrow> string list \<Rightarrow> string" where
  "array_text l items =
     (if items = [] then ''[]''
      else ''['' @ newline_indent (l + 1) @ join ('','' @ newline_indent (l + 1)) items
           @ newline_indent l @ '']'')"

definition object_text :: "int \<Rightarrow> string list \<Rightarrow> string" where
  "object_text l members =
     (if members = [] then ''{}''
      else ''{'' @ newline_indent (l + 1) @ join ('','' @ newline_indent (l + 1)) members
           @ newline_indent l @ ''}'')"

definition member_text :: "string \<Rightarrow> string \<Rightarrow> string" where
  "member_text key v = quoted key @ '': '' @ v"

definition members_text :: "int \<Rightarrow> string list \<Rightarrow> string" where
  "members_text l members =
     (if members = [] then []
      else newline_indent (l + 1) @ join ('','' @ newline_indent (l + 1)) members)"

definition boolean_text :: "Nullability \<Rightarrow> string" where
  "boolean_text n = (case n of Nullable \<Rightarrow> ''true'' | Nonnullable \<Rightarrow> ''false'')"

definition lowercase :: "string \<Rightarrow> bool" where
  "lowercase s \<longleftrightarrow> s \<noteq> [] \<and> list_all (\<lambda>c. c \<in> set ''abcdefghijklmnopqrstuvwxyz'') s"

text \<open>
  The text an action appends when it starts at indent level \<open>l\<close>, and the actions
  that return, leave the indent level as they found it and append a text that depends on
  the level only.
\<close>

definition text_of :: "action \<Rightarrow> int \<Rightarrow> string" where
  "text_of act l =
     (case act \<lparr>json_file = [], indent_level = l\<rparr> of
        None \<Rightarrow> []
      | Some g \<Rightarrow> json_file g)"

definition balanced :: "action \<Rightarrow> bool" where
  "balanced act \<longleftrightarrow>
     (\<forall>l out. 0 \<le> l \<longrightarrow>
        act \<lparr>json_file = out, indent_level = l\<rparr>
          = Some \<lparr>json_file = out @ text_of act l, indent_level = l\<rparr>)"

text \<open>
  The name and kind of every declaration of a library, the five kinds concatenated in the
  order Const, Enum, Interface, Struct, Union, and the member one such pair is written as.
\<close>

definition declaration_map_entries :: "Library \<Rightarrow> (string \<times> string) list" where
  "declaration_map_entries library =
     map (\<lambda>d. (LongName (Const_name d), ''const'')) (const_declarations library)
     @ map (\<lambda>d. (LongName (Enum_name d), ''enum'')) (enum_declarations library)
     @ map (\<lambda>d. (LongName (Interface_name d), ''interface'')) (interface_declarations library)
     @ map (\<lambda>d. (LongName (Struct_name d), ''struct'')) (struct_declarations library)
     @ map (\<lambda>d. (LongName (Union_name d), ''union'')) (union_declarations library)"

definition entry_text :: "string \<times> string \<Rightarrow> string" where
  "entry_text e = member_text (fst e) (quoted (snd e))"

text \<open>Concrete inputs: a struct member \<open>uint32 x\<close> at offset 0 with no default
  value; an enum whose type is not primitive; a method with neither request nor response;
  a library with one Const named A and one Enum named B; the library \<open>example\<close>
  with the one struct \<open>S\<close> of size 4 that holds that member.\<close>

definition member_x :: Struct_Member where
  "member_x =
     \<lparr>Struct_Member_type = PrimitiveType Uint32,
      Struct_Member_name = Identifier ''x'',
      Struct_Member_maybe_default_value = None,
      Struct_Member_offset = 0\<rparr>"

definition enum_E :: Enum where
  "enum_E =
     \<lparr>Enum_name = Name (Identifier ''E''),
      Enum_type = IdentifierType (CompoundIdentifier [Identifier ''T'']) Nonnullable,
      Enum_members = []\<rparr>"

definition method_M :: Method where
  "method_M =
     \<lparr>Method_ordinal = 1,
      Method_name = Identifier ''M'',
      Method_has_request = False,
      Method_maybe_request = [],
      Method_maybe_request_size = 0,
      Method_has_response = False,
      Method_maybe_response = [],
      Method_maybe_response_size = 0\<rparr>"

definition library_A_B :: Library where
  "library_A_B =
     \<lparr>library_name = ''example'',
      const_declarations =
        [\<lparr>Const_name = Name (Identifier ''A''), Const_type = PrimitiveType Uint32,
          Const_value = LiteralConstant (NumericLiteral ''1'')\<rparr>],
      enum_declarations =
        [\<lparr>Enum_name = Name (Identifier ''B''), Enum_type = PrimitiveType Uint32,
          Enum_members = []\<rparr>],
      interface_declarations = [],
      struct_declarations = [],
      union_declarations = [],
      declaration_order = [Name (Identifier ''A''), Name (Identifier ''B'')]\<rparr>"

definition library_example :: Library where
  "library_example =
     \<lparr>library_name = ''example'',
      const_declarations = [],
      enum_declarations = [],
      interface_declarations = [],
      struct_declarations =
        [\<lparr>Struct_name = Name (Identifier ''S''), Struct_members = [member_x],
          Struct_size = 4\<rparr>],
      union_declarations = [],
      declaration_order = [Name (Identifier ''S'')]\<rparr>"

section \<open>The Emit functions and the statements\<close>

text \<open>
  The indentation loop returns from every level that is not negative, with one indent
  unit per level, and it returns from no other level.
\<close>

lemma EmitNewlineAndIndent_loop_nat:
  "EmitNewlineAndIndent_loop file (int n) = Some (file @ concat (replicate n kIndent))"
proof (induction n arbitrary: "file")
  case 0
  show ?case by (subst EmitNewlineAndIndent_loop.simps) simp
next
  case (Suc n)
  have "EmitNewlineAndIndent_loop file (int (Suc n))
        = EmitNewlineAndIndent_loop (file @ kIndent) (int n)"
    by (subst EmitNewlineAndIndent_loop.simps) simp
  then show ?case by (simp add: Suc.IH)
qed

lemma EmitNewlineAndIndent_eq:
  "0 \<le> l \<Longrightarrow> EmitNewlineAndIndent file l = Some (file @ newline_indent l)"
  using EmitNewlineAndIndent_loop_nat [of "file @ ''\<newline>''" "nat l"]
  by (simp add: EmitNewlineAndIndent_def newline_indent_def)

lemma EmitNewlineAndIndent_loop_returns:
  assumes "EmitNewlineAndIndent_loop buf l = Some out"
  shows "0 \<le> l"
proof (rule EmitNewlineAndIndent_loop.raw_induct [where P = "\<lambda>_ l _. 0 \<le> l", OF _ assms])
  fix loop :: "string \<Rightarrow> int \<Rightarrow> string option" and buf l out
  assume IH: "\<And>buf l out. loop buf l = Some out \<Longrightarrow> 0 \<le> l"
    and body: "(if l \<noteq> 0 then loop (buf @ kIndent) (l - 1) else Some buf) = Some out"
  show "0 \<le> l"
  proof (cases "l = 0")
    case True
    then show ?thesis by simp
  next
    case False
    with body have "loop (buf @ kIndent) (l - 1) = Some out" by simp
    then have "0 \<le> l - 1" by (rule IH)
    then show ?thesis by simp
  qed
qed

text \<open>
  \<open>EmitString\<close> writes the escaped rendering of its argument in double quotes.
\<close>

lemma EmitString_loop_eq: "EmitString_loop file v = file @ concat (map escape v)"
  by (induction v arbitrary: "file") auto

lemma EmitString_eq: "EmitString file v = file @ quoted v"
  by (simp add: EmitString_def EmitString_loop_eq quoted_def)

lemmas Emit_defs =
  EmitBoolean_def EmitLiteral_def EmitUint32_def EmitUint64_def EmitNewline_def
  EmitObjectBegin_def EmitObjectSeparator_def EmitObjectEnd_def EmitObjectKey_def
  EmitArrayBegin_def EmitArraySeparator_def EmitArrayEnd_def EmitString_eq
  EmitNewlineAndIndent_eq

lemmas statement_defs =
  skip_def emit_def emit_key_def emit_at_indent_level_def increment_indent_level_def
  decrement_indent_level_def

text \<open>
  Running the statements of a member function on a state: a balanced value is written
  where the state stands; a first member opens a new level, a subsequent member stays on
  it; \<open>GenerateObject\<close> closes the level its callback has opened.
\<close>

lemma balancedI:
  assumes "\<And>l out. 0 \<le> l \<Longrightarrow>
    act \<lparr>json_file = out, indent_level = l\<rparr>
      = Some \<lparr>json_file = out @ t l, indent_level = l\<rparr>"
  shows "balanced act"
  unfolding balanced_def text_of_def
proof (intro allI impI)
  fix l out
  assume l: "(0::int) \<le> l"
  show "act \<lparr>json_file = out, indent_level = l\<rparr> =
       Some \<lparr>json_file = out @ (case act \<lparr>json_file = [], indent_level = l\<rparr> of
          None \<Rightarrow> [] | Some g \<Rightarrow> json_file g), indent_level = l\<rparr>"
    using assms [OF l, of out] assms [OF l, of "[]"] by simp
qed

lemma balanced_run:
  "balanced act \<Longrightarrow> 0 \<le> l \<Longrightarrow>
   act \<lparr>json_file = out, indent_level = l\<rparr>
     = Some \<lparr>json_file = out @ text_of act l, indent_level = l\<rparr>"
  by (simp add: balanced_def)

lemma text_ofI:
  "act \<lparr>json_file = [], indent_level = l\<rparr> = Some \<lparr>json_file = t, indent_level = l'\<rparr>
   \<Longrightarrow> text_of act l = t"
  by (simp add: text_of_def)

lemma member_First_run:
  "balanced v \<Longrightarrow> 0 \<le> l \<Longrightarrow>
   GenerateObjectMember key v First \<lparr>json_file = out, indent_level = l\<rparr>
     = Some \<lparr>json_file = out @ newline_indent (l + 1) @ member_text key (text_of v (l + 1)),
             indent_level = l + 1\<rparr>"
  by (simp add: GenerateObjectMember_def statement_defs Emit_defs balanced_run member_text_def)

lemma member_Subsequent_run:
  "balanced v \<Longrightarrow> 0 \<le> l \<Longrightarrow>
   GenerateObjectMember key v Subsequent \<lparr>json_file = out, indent_level = l\<rparr>
     = Some \<lparr>json_file = out @ '','' @ newline_indent l @ member_text key (text_of v l),
             indent_level = l\<rparr>"
  by (simp add: GenerateObjectMember_def statement_defs Emit_defs balanced_run member_text_def)

lemma GenerateObject_run:
  "GenerateObject callback \<lparr>json_file = out, indent_level = l\<rparr> =
     (case callback \<lparr>json_file = out @ ''{'', indent_level = l\<rparr> of
        None \<Rightarrow> None
      | Some g \<Rightarrow>
          if indent_level g > l
          then (case EmitNewlineAndIndent (json_file g) (indent_level g - 1) of
                  None \<Rightarrow> None
                | Some out' \<Rightarrow> Some \<lparr>json_file = out' @ ''}'', indent_level = indent_level g - 1\<rparr>)
          else Some \<lparr>json_file = json_file g @ ''}'', indent_level = indent_level g\<rparr>)"
  by (simp add: GenerateObject_def statement_defs EmitObjectBegin_def EmitObjectEnd_def
      split: option.splits)

lemma balanced_emit: "(\<And>out. Emit out = out @ t) \<Longrightarrow> balanced (emit Emit)"
  by (rule balancedI [where t = "\<lambda>_. t"]) (simp add: emit_def)

lemma text_of_emit: "(\<And>out. Emit out = out @ t) \<Longrightarrow> text_of (emit Emit) l = t"
  by (simp add: text_of_def emit_def)

lemma balanced_Generate_StringView [simp]: "balanced (Generate_StringView v)"
  unfolding Generate_StringView_def by (rule balanced_emit) (rule EmitString_eq)

lemma text_of_Generate_StringView [simp]: "text_of (Generate_StringView v) l = quoted v"
  unfolding Generate_StringView_def by (rule text_of_emit) (rule EmitString_eq)

lemmas run_simps = member_First_run member_Subsequent_run GenerateObject_run
   statement_defs Emit_defs default_position_def

lemma Generate_Literal_run:
  "0 \<le> l \<Longrightarrow> Generate_Literal v \<lparr>json_file = out, indent_level = l\<rparr> =
     Some \<lparr>json_file = out @ object_text l
        (member_text ''kind'' (quoted (LiteralKindName (Literal_kind v))) #
         (case v of StringLiteral location \<Rightarrow> [member_text ''value'' location]
          | NumericLiteral location \<Rightarrow> [member_text ''value'' (quoted location)]
          | _ \<Rightarrow> [])), indent_level = l\<rparr>"
  by (cases v) (simp_all add: Generate_Literal_def run_simps object_text_def member_text_def)

section \<open>Arrays\<close>

text \<open>
  The loop of \<open>GenerateArray\<close> from index \<open>i\<close> on writes a separator and
  an element for every remaining index; from index 0 it writes the elements joined by the
  separator.
\<close>

lemma join_Cons: "join sep (x # xs) = x @ concat (map (\<lambda>y. sep @ y) xs)"
  by (induction xs arbitrary: x) auto

lemma join_snoc: "join sep (xs @ [x]) = (if xs = [] then x else join sep xs @ sep @ x)"
  by (induction sep xs rule: join.induct) auto

lemma GenerateArray_loop_run:
  assumes G: "\<forall>x\<in>set xs. balanced (G x)" and l: "0 \<le> l"
  shows "0 < i \<Longrightarrow> GenerateArray_loop G xs i \<lparr>json_file = out, indent_level = l\<rparr> =
     Some \<lparr>json_file = out @ concat (map (\<lambda>x. ('','' @ newline_indent l) @ text_of (G x) l) (drop i xs)),
           indent_level = l\<rparr>"
proof (induction "length xs - i" arbitrary: i out)
  case 0
  then show ?case by (subst GenerateArray_loop.simps) simp
next
  case (Suc n)
  then have i: "i < length xs" by simp
  then have b: "balanced (G (xs ! i))" using G by simp
  have n: "n = length xs - Suc i" using Suc.hyps(2) by simp
  show ?case
    using i l Suc.prems
    by (subst GenerateArray_loop.simps)
       (simp add: Suc.hyps(1) [OF n] statement_defs Emit_defs balanced_run [OF b]
         Cons_nth_drop_Suc [symmetric])
qed

lemma GenerateArray_loop_run_0:
  assumes G: "\<forall>x\<in>set xs. balanced (G x)" and l: "0 \<le> l"
  shows "GenerateArray_loop G xs 0 \<lparr>json_file = out, indent_level = l\<rparr> =
     Some \<lparr>json_file = out @ join ('','' @ newline_indent l) (map (\<lambda>x. text_of (G x) l) xs),
           indent_level = l\<rparr>"
proof (cases xs)
  case Nil
  then show ?thesis by (subst GenerateArray_loop.simps) simp
next
  case (Cons x ys)
  then have b: "balanced (G x)" using G by simp
  have rest: "GenerateArray_loop G (x # ys) (Suc 0) \<lparr>json_file = out', indent_level = l\<rparr> =
     Some \<lparr>json_file = out' @ concat (map (\<lambda>x. ('','' @ newline_indent l) @ text_of (G x) l) ys),
           indent_level = l\<rparr>" for out'
    using GenerateArray_loop_run [OF G l, where i = "Suc 0" and out = out'] Cons by simp
  have "GenerateArray_loop G xs 0 \<lparr>json_file = out, indent_level = l\<rparr> =
      GenerateArray_loop G xs (Suc 0) \<lparr>json_file = out @ text_of (G x) l, indent_level = l\<rparr>"
    using l Cons by (subst GenerateArray_loop.simps) (simp add: balanced_run [OF b])
  then show ?thesis
    by (simp add: rest Cons join_Cons comp_def)
qed

lemma GenerateArray_run:
  assumes G: "\<forall>x\<in>set xs. balanced (G x)" and l: "0 \<le> l"
  shows "GenerateArray G xs \<lparr>json_file = out, indent_level = l\<rparr> =
     Some \<lparr>json_file = out @ array_text l (map (\<lambda>x. text_of (G x) (l + 1)) xs),
           indent_level = l\<rparr>"
proof (cases "xs = []")
  case True
  have "GenerateArray_loop G [] 0 g = Some g" for g
    by (subst GenerateArray_loop.simps) simp
  with True show ?thesis
    by (simp add: GenerateArray_def statement_defs Emit_defs array_text_def)
next
  case False
  have l1: "0 \<le> l + 1" using l by simp
  show ?thesis
    using False l
    by (simp add: GenerateArray_def statement_defs Emit_defs array_text_def
        GenerateArray_loop_run_0 [OF G l1])
qed

lemma balanced_GenerateArray:
  assumes "\<forall>x\<in>set xs. balanced (G x)"
  shows "balanced (GenerateArray G xs)"
  by (rule balancedI) (rule GenerateArray_run [OF assms])

lemma text_of_GenerateArray:
  assumes "\<forall>x\<in>set xs. balanced (G x)" and "0 \<le> l"
  shows "text_of (GenerateArray G xs) l = array_text l (map (\<lambda>x. text_of (G x) (l + 1)) xs)"
proof -
  have "GenerateArray G xs \<lparr>json_file = [], indent_level = l\<rparr> =
     Some \<lparr>json_file = [] @ array_text l (map (\<lambda>x. text_of (G x) (l + 1)) xs),
           indent_level = l\<rparr>"
    by (rule GenerateArray_run) (fact assms)+
  then show ?thesis by (simp add: text_of_def)
qed

section \<open>The node mapper\<close>

text \<open>
  Every \<open>Generate\<close> overload is balanced; the objects that the claims speak about
  are also given member by member.
\<close>

lemma balanced_Generate_vector:
  "\<forall>x\<in>set xs. balanced (G x) \<Longrightarrow> balanced (Generate_vector G xs)"
  unfolding Generate_vector_def by (rule balanced_GenerateArray)

lemma text_of_Generate_vector:
  "\<forall>x\<in>set xs. balanced (G x) \<Longrightarrow> 0 \<le> l \<Longrightarrow>
   text_of (Generate_vector G xs) l = array_text l (map (\<lambda>x. text_of (G x) (l + 1)) xs)"
  unfolding Generate_vector_def by (rule text_of_GenerateArray)

lemma balanced_Generate_bool [simp]: "balanced (Generate_bool v)"
  by (cases v) (simp_all add: Generate_bool_def balanced_emit EmitBoolean_def)

lemma text_of_Generate_bool [simp]:
  "text_of (Generate_bool v) l = (if v then ''true'' else ''false'')"
  by (simp add: Generate_bool_def text_of_def emit_def EmitBoolean_def)

lemma balanced_Generate_uint64 [simp]: "balanced (Generate_uint64 v)"
  unfolding Generate_uint64_def by (rule balanced_emit) (simp add: EmitUint64_def)

lemma text_of_Generate_uint64 [simp]: "text_of (Generate_uint64 v) l = decimal (unat v)"
  by (simp add: Generate_uint64_def text_of_def emit_def EmitUint64_def)

lemma balanced_Generate_Ordinal [simp]: "balanced (Generate_Ordinal v)"
  unfolding Generate_Ordinal_def by (rule balanced_emit) (simp add: EmitUint32_def)

lemma text_of_Generate_Ordinal [simp]: "text_of (Generate_Ordinal v) l = decimal (unat v)"
  by (simp add: Generate_Ordinal_def text_of_def emit_def EmitUint32_def)

lemma balanced_Generate_HandleSubtype [simp]: "balanced (Generate_HandleSubtype v)"
  unfolding Generate_HandleSubtype_def by (rule balanced_emit) (rule EmitString_eq)

lemma text_of_Generate_HandleSubtype [simp]:
  "text_of (Generate_HandleSubtype v) l = quoted (HandleSubtypeName v)"
  unfolding Generate_HandleSubtype_def by (rule text_of_emit) (rule EmitString_eq)

lemma balanced_Generate_PrimitiveSubtype [simp]: "balanced (Generate_PrimitiveSubtype v)"
  unfolding Generate_PrimitiveSubtype_def by (rule balanced_emit) (rule EmitString_eq)

lemma text_of_Generate_PrimitiveSubtype [simp]:
  "text_of (Generate_PrimitiveSubtype v) l = quoted (PrimitiveSubtypeName v)"
  unfolding Generate_PrimitiveSubtype_def by (rule text_of_emit) (rule EmitString_eq)

lemma balanced_Generate_Identifier [simp]: "balanced (Generate_Identifier v)"
  unfolding Generate_Identifier_def by (rule balanced_emit) (rule EmitString_eq)

lemma text_of_Generate_Identifier [simp]:
  "text_of (Generate_Identifier v) l = quoted (location_data v)"
  unfolding Generate_Identifier_def by (rule text_of_emit) (rule EmitString_eq)

lemma balanced_Generate_Name [simp]: "balanced (Generate_Name v)"
  unfolding Generate_Name_def by (rule balanced_emit) (rule EmitString_eq)

lemma text_of_Generate_Name [simp]: "text_of (Generate_Name v) l = quoted (LongName v)"
  unfolding Generate_Name_def by (rule text_of_emit) (rule EmitString_eq)

lemma balanced_Generate_Nullability [simp]: "balanced (Generate_Nullability v)"
  by (cases v) (simp_all add: Generate_Nullability_def balanced_emit EmitBoolean_def)

lemma text_of_Generate_Nullability [simp]:
  "text_of (Generate_Nullability v) l = boolean_text v"
  by (cases v)
     (simp_all add: Generate_Nullability_def text_of_def emit_def EmitBoolean_def
       boolean_text_def)

lemma balanced_Generate_CompoundIdentifier [simp]: "balanced (Generate_CompoundIdentifier v)"
  unfolding Generate_CompoundIdentifier_def by (rule balanced_Generate_vector) simp

lemma text_of_Generate_CompoundIdentifier:
  "0 \<le> l \<Longrightarrow> text_of (Generate_CompoundIdentifier v) l
     = array_text l (map (\<lambda>i. quoted (location_data i)) (components v))"
  by (simp add: Generate_CompoundIdentifier_def text_of_Generate_vector)

lemma balanced_Generate_Literal [simp]: "balanced (Generate_Literal v)"
  by (rule balancedI) (rule Generate_Literal_run)

lemma Generate_Constant_run:
  "0 \<le> l \<Longrightarrow> Generate_Constant v \<lparr>json_file = out, indent_level = l\<rparr> =
     Some \<lparr>json_file = out @ object_text l
        [member_text ''kind'' (quoted (ConstantKindName (Constant_kind v))),
         (case v of
            IdentifierConstant identifier \<Rightarrow>
              member_text ''identifier'' (text_of (Generate_CompoundIdentifier identifier) (l + 1))
          | LiteralConstant literal \<Rightarrow>
              member_text ''literal'' (text_of (Generate_Literal literal) (l + 1)))],
        indent_level = l\<rparr>"
  by (cases v) (simp_all add: Generate_Constant_def run_simps object_text_def)

lemma balanced_Generate_Constant [simp]: "balanced (Generate_Constant v)"
  by (rule balancedI) (rule Generate_Constant_run)

lemma balanced_unfold:
  "(\<And>l out. 0 \<le> l \<Longrightarrow>
      act \<lparr>json_file = out, indent_level = l\<rparr> =
        Some \<lparr>json_file = out @
          (case act \<lparr>json_file = [], indent_level = l\<rparr> of
             None \<Rightarrow> [] | Some g \<Rightarrow> json_file g), indent_level = l\<rparr>)
   \<Longrightarrow> balanced act"
  unfolding balanced_def text_of_def by blast

lemma balanced_Generate_Type [simp]: "balanced (Generate_Type t)"
proof (induction t)
  case (VectorType t mc n)
  then show ?case
    by (cases mc) (rule balanced_unfold, simp add: Generate_Type.simps run_simps)+
next
  case (StringType mc n)
  then show ?case
    by (cases mc) (rule balanced_unfold, simp add: Generate_Type.simps run_simps)+
qed ((rule balanced_unfold, simp add: Generate_Type.simps run_simps)+)

lemma Generate_Type_run:
  "0 \<le> l \<Longrightarrow> Generate_Type t \<lparr>json_file = out, indent_level = l\<rparr> =
     Some \<lparr>json_file = out @ object_text l
       (member_text ''kind'' (quoted (TypeKindName (Type_kind t))) #
        (case t of
          ArrayType element_type element_count \<Rightarrow>
            [member_text ''element_type'' (text_of (Generate_Type element_type) (l + 1)),
             member_text ''element_count'' (text_of (Generate_Constant element_count) (l + 1))]
        | VectorType element_type maybe_element_count nullability \<Rightarrow>
            member_text ''element_type'' (text_of (Generate_Type element_type) (l + 1)) #
            (case maybe_element_count of
               Some element_count \<Rightarrow>
                 [member_text ''maybe_element_count''
                    (text_of (Generate_Constant element_count) (l + 1))]
             | None \<Rightarrow> []) @
            [member_text ''nullable'' (boolean_text nullability)]
        | StringType maybe_element_count nullability \<Rightarrow>
            (case maybe_element_count of
               Some element_count \<Rightarrow>
                 [member_text ''maybe_element_count''
                    (text_of (Generate_Constant element_count) (l + 1))]
             | None \<Rightarrow> []) @
            [member_text ''nullable'' (boolean_text nullability)]
        | HandleType subtype nullability \<Rightarrow>
            [member_text ''subtype'' (quoted (HandleSubtypeName subtype)),
             member_text ''nullable'' (boolean_text nullability)]
        | RequestType subtype nullability \<Rightarrow>
            [member_text ''subtype'' (text_of (Generate_CompoundIdentifier subtype) (l + 1)),
             member_text ''nullable'' (boolean_text nullability)]
        | PrimitiveType subtype \<Rightarrow>
            [member_text ''subtype'' (quoted (PrimitiveSubtypeName subtype))]
        | IdentifierType identifier nullability \<Rightarrow>
            [member_text ''identifier'' (text_of (Generate_CompoundIdentifier identifier) (l + 1)),
             member_text ''nullable'' (boolean_text nullability)])),
       indent_level = l\<rparr>"
proof (cases t)
  case (VectorType t mc n)
  assume "0 \<le> l"
  with VectorType show ?thesis
    by (cases mc) (simp_all add: Generate_Type.simps run_simps object_text_def)
next
  case (StringType mc n)
  assume "0 \<le> l"
  with StringType show ?thesis
    by (cases mc) (simp_all add: Generate_Type.simps run_simps object_text_def)
qed (simp_all add: Generate_Type.simps run_simps object_text_def)

lemma balanced_Generate_Const [simp]: "balanced (Generate_Const v)"
  by (rule balanced_unfold) (simp add: Generate_Const_def run_simps)

lemma balanced_Generate_Enum_Member [simp]: "balanced (Generate_Enum_Member v)"
  by (rule balanced_unfold) (simp add: Generate_Enum_Member_def run_simps)

lemma balanced_Generate_Enum [simp]: "balanced (Generate_Enum v)"
  by (rule balanced_unfold, cases "Enum_type v")
     (simp_all add: Generate_Enum_def run_simps balanced_Generate_vector)

lemma balanced_Generate_Parameter [simp]: "balanced (Generate_Parameter v)"
  by (rule balanced_unfold) (simp add: Generate_Parameter_def run_simps)

lemma balanced_Generate_Method [simp]: "balanced (Generate_Method v)"
  by (rule balanced_unfold) (simp add: Generate_Method_def run_simps balanced_Generate_vector)

lemma balanced_Generate_Interface [simp]: "balanced (Generate_Interface v)"
  by (rule balanced_unfold) (simp add: Generate_Interface_def run_simps balanced_Generate_vector)

lemma Generate_Struct_Member_run:
  "0 \<le> l \<Longrightarrow> Generate_Struct_Member v \<lparr>json_file = out, indent_level = l\<rparr> =
     Some \<lparr>json_file = out @ object_text l
       ([member_text ''type'' (text_of (Generate_Type (Struct_Member_type v)) (l + 1)),
         member_text ''name'' (quoted (location_data (Struct_Member_name v)))] @
        (case Struct_Member_maybe_default_value v of
           Some default_value \<Rightarrow>
             [member_text ''maybe_default_value''
                (text_of (Generate_Constant default_value) (l + 1))]
         | None \<Rightarrow> []) @
        [member_text ''offset'' (decimal (unat (Struct_Member_offset v)))]),
       indent_level = l\<rparr>"
  by (cases "Struct_Member_maybe_default_value v")
     (simp_all add: Generate_Struct_Member_def run_simps object_text_def)

lemma balanced_Generate_Struct_Member [simp]: "balanced (Generate_Struct_Member v)"
  by (rule balancedI) (rule Generate_Struct_Member_run)

lemma balanced_Generate_Struct [simp]: "balanced (Generate_Struct v)"
  by (rule balanced_unfold) (simp add: Generate_Struct_def run_simps balanced_Generate_vector)

lemma balanced_Generate_Union_Member [simp]: "balanced (Generate_Union_Member v)"
  by (rule balanced_unfold) (simp add: Generate_Union_Member_def run_simps)

lemma balanced_Generate_Union [simp]: "balanced (Generate_Union v)"
  by (rule balanced_unfold) (simp add: Generate_Union_def run_simps balanced_Generate_vector)

section \<open>The declaration map and the document\<close>

text \<open>
  The five loops of the declaration map: after the entries \<open>E\<close> have been written
  the counter is their number, and the level has been raised exactly when \<open>E\<close>
  is not empty.
\<close>

lemma members_text_snoc:
  "members_text l (E @ [e]) =
     members_text l E @ (if E = [] then newline_indent (l + 1) else '','' @ newline_indent (l + 1)) @ e"
  by (simp add: members_text_def join_snoc)

lemma GenerateDeclarationMapEntry_run:
  assumes "0 \<le> l"
  shows "GenerateDeclarationMapEntry (int (length E)) n decl
           \<lparr>json_file = out @ members_text l E, indent_level = (if E = [] then l else l + 1)\<rparr>
         = Some \<lparr>json_file = out @ members_text l (E @ [entry_text (LongName n, decl)]),
                 indent_level = l + 1\<rparr>"
  using assms
  by (simp add: GenerateDeclarationMapEntry_def statement_defs Emit_defs members_text_snoc
      entry_text_def member_text_def)

lemma GenerateDeclarationMapEntries_run:
  assumes "0 \<le> l"
  shows "GenerateDeclarationMapEntries name decl ds
           (int (length E),
            \<lparr>json_file = out @ members_text l E, indent_level = (if E = [] then l else l + 1)\<rparr>)
         = Some (int (length (E @ map (\<lambda>d. entry_text (LongName (name d), decl)) ds)),
                 \<lparr>json_file = out @ members_text l (E @ map (\<lambda>d. entry_text (LongName (name d), decl)) ds),
                  indent_level =
                    (if E @ map (\<lambda>d. entry_text (LongName (name d), decl)) ds = [] then l else l + 1)\<rparr>)"
proof (induction ds arbitrary: E)
  case Nil
  show ?case by simp
next
  case (Cons d ds)
  have "GenerateDeclarationMapEntries name decl (d # ds)
           (int (length E),
            \<lparr>json_file = out @ members_text l E, indent_level = (if E = [] then l else l + 1)\<rparr>)
      = GenerateDeclarationMapEntries name decl ds
           (int (length (E @ [entry_text (LongName (name d), decl)])),
            \<lparr>json_file = out @ members_text l (E @ [entry_text (LongName (name d), decl)]),
             indent_level = (if E @ [entry_text (LongName (name d), decl)] = [] then l else l + 1)\<rparr>)"
    using GenerateDeclarationMapEntry_run [OF assms, of E "name d" decl out]
    by (simp add: add.commute)
  then show ?case
    by (simp only: Cons.IH) simp
qed

lemma GenerateDeclarationMap_run:
  assumes "0 \<le> l"
  shows "GenerateDeclarationMap library \<lparr>json_file = out, indent_level = l\<rparr>
         = Some \<lparr>json_file = out @ members_text l (map entry_text (declaration_map_entries library)),
                 indent_level = (if declaration_map_entries library = [] then l else l + 1)\<rparr>"
proof -
  have start: "(0, \<lparr>json_file = out, indent_level = l\<rparr>)
      = (int (length ([] :: string list)),
         \<lparr>json_file = out @ members_text l [], indent_level = (if ([] :: string list) = [] then l else l + 1)\<rparr>)"
    by (simp add: members_text_def)
  show ?thesis
    unfolding GenerateDeclarationMap_def
    by (simp only: start bind.bind_lunit GenerateDeclarationMapEntries_run [OF assms]
          Option.bind.simps)
       (simp add: declaration_map_entries_def comp_def)
qed

lemma GenerateDeclarationMap_object_run:
  assumes "0 \<le> l"
  shows "GenerateObject (GenerateDeclarationMap library) \<lparr>json_file = out, indent_level = l\<rparr>
         = Some \<lparr>json_file = out @ object_text l (map entry_text (declaration_map_entries library)),
                 indent_level = l\<rparr>"
  using assms
  by (simp add: GenerateObject_run GenerateDeclarationMap_run object_text_def members_text_def
      EmitNewlineAndIndent_eq)

lemma ProduceJSON_run:
  "ProduceJSON library g =
     Some \<lparr>json_file = json_file g @ object_text 0
        [member_text ''name'' (quoted (library_name library)),
         member_text ''library_dependencies'' ''[]'',
         member_text ''const_declarations''
           (text_of (Generate_vector Generate_Const (const_declarations library)) 1),
         member_text ''enum_declarations''
           (text_of (Generate_vector Generate_Enum (enum_declarations library)) 1),
         member_text ''interface_declarations''
           (text_of (Generate_vector Generate_Interface (interface_declarations library)) 1),
         member_text ''struct_declarations''
           (text_of (Generate_vector Generate_Struct (struct_declarations library)) 1),
         member_text ''union_declarations''
           (text_of (Generate_vector Generate_Union (union_declarations library)) 1),
         member_text ''declaration_order''
           (text_of (Generate_vector Generate_Name (declaration_order library)) 1),
         member_text ''declarations''
           (object_text 1 (map entry_text (declaration_map_entries library)))]
        @ ''\<newline>'', indent_level = 0\<rparr>"
proof -
  have deps: "text_of (Generate_vector Generate_bool []) l = ''[]''" if "0 \<le> l" for l
    using that by (simp add: text_of_Generate_vector array_text_def)
  show ?thesis
    by (cases g)
       (simp add: ProduceJSON_def run_simps balanced_Generate_vector deps
         GenerateDeclarationMap_run members_text_def GenerateEOF_def object_text_def
         member_text_def)
qed

section \<open>Evaluation on concrete inputs\<close>

text \<open>
  Indentations, digits and texts at the levels and values that the concrete inputs need.
\<close>

lemma decimal_digits:
  "decimal 0 = ''0''" "decimal 1 = ''1''" "decimal 2 = ''2''" "decimal 3 = ''3''"
  "decimal 4 = ''4''" "decimal 5 = ''5''" "decimal 6 = ''6''" "decimal 7 = ''7''"
  "decimal 8 = ''8''" "decimal 9 = ''9''"
  by code_simp+

lemma newline_indent_levels:
  "newline_indent 0 = ''\<newline>''"
  "newline_indent 1 = ''\<newline>  ''"
  "newline_indent 2 = ''\<newline>    ''"
  "newline_indent 3 = ''\<newline>      ''"
  "newline_indent 4 = ''\<newline>        ''"
  "newline_indent 5 = ''\<newline>          ''"
  "newline_indent 6 = ''\<newline>            ''"
  by (simp_all add: newline_indent_def kIndent_def eval_nat_numeral)

lemmas text_defs =
  object_text_def array_text_def member_text_def quoted_def newline_indent_def kIndent_def
  entry_text_def boolean_text_def

lemmas text_simps =
  object_text_def array_text_def member_text_def quoted_def entry_text_def boolean_text_def
  newline_indent_levels decimal_digits

lemma Generate_Struct_run:
  "0 \<le> l \<Longrightarrow> Generate_Struct v \<lparr>json_file = out, indent_level = l\<rparr> =
     Some \<lparr>json_file = out @ object_text l
       [member_text ''name'' (quoted (LongName (Struct_name v))),
        member_text ''members''
          (array_text (l + 1)
             (map (\<lambda>m. text_of (Generate_Struct_Member m) (l + 1 + 1)) (Struct_members v))),
        member_text ''size'' (decimal (unat (Struct_size v)))],
       indent_level = l\<rparr>"
  by (simp add: Generate_Struct_def run_simps object_text_def balanced_Generate_vector
      text_of_Generate_vector)

lemma GenerateObject_restores:
  assumes "0 \<le> l"
    and "callback \<lparr>json_file = out @ ''{'', indent_level = l\<rparr> = Some g'"
    and "indent_level g' = l \<or> indent_level g' = l + 1"
  shows "\<exists>out'. GenerateObject callback \<lparr>json_file = out, indent_level = l\<rparr>
           = Some \<lparr>json_file = out', indent_level = l\<rparr>"
  using assms by (cases g') (auto simp: GenerateObject_run EmitNewlineAndIndent_eq)

lemma lowercase_names:
  "lowercase (LiteralKindName lk)" "lowercase (TypeKindName tk)"
  "lowercase (ConstantKindName ck)"
  by (cases lk, simp_all add: lowercase_def, cases tk, simp_all, cases ck, simp_all)

lemma Generate_Enum_run:
  "0 \<le> l \<Longrightarrow> Generate_Enum v \<lparr>json_file = out, indent_level = l\<rparr> =
     Some \<lparr>json_file = out @ object_text l
       (case Enum_type v of
          PrimitiveType subtype \<Rightarrow>
            [member_text ''name'' (quoted (LongName (Enum_name v))),
             member_text ''type'' (quoted (PrimitiveSubtypeName subtype)),
             member_text ''members''
               (text_of (Generate_vector Generate_Enum_Member (Enum_members v)) (l + 1))]
        | _ \<Rightarrow>
            [member_text ''name'' (quoted (LongName (Enum_name v))),
             member_text ''members''
               (text_of (Generate_vector Generate_Enum_Member (Enum_members v)) (l + 1))]),
       indent_level = l\<rparr>"
  by (cases "Enum_type v")
     (simp_all add: Generate_Enum_def run_simps object_text_def balanced_Generate_vector)

lemma Generate_Method_run:
  "0 \<le> l \<Longrightarrow> Generate_Method v \<lparr>json_file = out, indent_level = l\<rparr> =
     Some \<lparr>json_file = out @ object_text l
       ([member_text ''ordinal'' (decimal (unat (Method_ordinal v))),
         member_text ''name'' (quoted (location_data (Method_name v))),
         member_text ''has_request'' (if Method_has_request v then ''true'' else ''false'')]
        @ (if Method_has_request v
           then [member_text ''maybe_request''
                   (text_of (Generate_vector Generate_Parameter (Method_maybe_request v)) (l + 1)),
                 member_text ''maybe_request_size''
                   (decimal (unat (Method_maybe_request_size v)))]
           else [])
        @ [member_text ''has_response'' (if Method_has_response v then ''true'' else ''false'')]
        @ (if Method_has_response v
           then [member_text ''maybe_response''
                   (text_of (Generate_vector Generate_Parameter (Method_maybe_response v)) (l + 1)),
                 member_text ''maybe_response_size''
                   (decimal (unat (Method_maybe_response_size v)))]
           else [])),
       indent_level = l\<rparr>"
  by (simp add: Generate_Method_def run_simps object_text_def balanced_Generate_vector)

lemma kind_names:
  "LiteralKindName (Literal_kind literal) =
     (case literal of
        StringLiteral _ \<Rightarrow> ''string'' | NumericLiteral _ \<Rightarrow> ''numeric''
      | TrueLiteral \<Rightarrow> ''true'' | FalseLiteral \<Rightarrow> ''false'' | DefaultLiteral \<Rightarrow> ''default'')"
  "TypeKindName (Type_kind ty) =
     (case ty of
        ArrayType _ _ \<Rightarrow> ''array'' | VectorType _ _ _ \<Rightarrow> ''vector''
      | StringType _ _ \<Rightarrow> ''string'' | HandleType _ _ \<Rightarrow> ''handle''
      | RequestType _ _ \<Rightarrow> ''request'' | PrimitiveType _ \<Rightarrow> ''primitive''
      | IdentifierType _ _ \<Rightarrow> ''identifier'')"
  "ConstantKindName (Constant_kind a_constant) =
     (case a_constant of
        IdentifierConstant _ \<Rightarrow> ''identifier'' | LiteralConstant _ \<Rightarrow> ''literal'')"
  by (cases literal, simp_all, cases ty, simp_all, cases a_constant, simp_all)

section \<open>The claims\<close>

text \<open>
  Claim C1, as stated: the "value" member of a String literal is the escaped rendering of
  its source text. It fails for the source text \<open>"a\"b"\<close> (six bytes): the
  escaped rendering that \<open>EmitString\<close> would write has twelve bytes, and
  \<open>Generate\<close> writes the six bytes of the source text as they are.
\<close>

theorem String_literal_value_escaped_counterexample:
  \<open>EmitString [] [CHR 0x22, CHR ''a'', CHR 0x5C, CHR 0x22, CHR ''b'', CHR 0x22]
     = [CHR 0x22, CHR 0x5C, CHR 0x22, CHR ''a'', CHR 0x5C, CHR 0x5C, CHR 0x5C, CHR 0x22,
        CHR ''b'', CHR 0x5C, CHR 0x22, CHR 0x22]
   \<and> Generate_Literal (StringLiteral [CHR 0x22, CHR ''a'', CHR 0x5C, CHR 0x22, CHR ''b'', CHR 0x22])
       \<lparr>json_file = [], indent_level = 0\<rparr>
     = Some \<lparr>json_file = ''{\<newline>  "kind": "string",\<newline>  "value": ''
               @ [CHR 0x22, CHR ''a'', CHR 0x5C, CHR 0x22, CHR ''b'', CHR 0x22] @ ''\<newline>}'',
             indent_level = 0\<rparr>
   \<and> Generate_Literal (StringLiteral [CHR 0x22, CHR ''a'', CHR 0x5C, CHR 0x22, CHR ''b'', CHR 0x22])
       \<lparr>json_file = [], indent_level = 0\<rparr>
     \<noteq> Some \<lparr>json_file = ''{\<newline>  "kind": "string",\<newline>  "value": ''
               @ [CHR 0x22, CHR 0x5C, CHR 0x22, CHR ''a'', CHR 0x5C, CHR 0x5C, CHR 0x5C, CHR 0x22,
                  CHR ''b'', CHR 0x5C, CHR 0x22, CHR 0x22] @ ''\<newline>}'',
             indent_level = 0\<rparr>\<close>
  by (simp add: Generate_Literal_run EmitString_eq text_defs)

text \<open>
  Claim C1, amended: the "value" member of a String literal is its source text, written
  verbatim by \<open>EmitLiteral\<close> with no quote added and no byte escaped. The
  escaped rendering in double quotes (a quote becomes backslash quote, a backslash becomes
  two backslashes, every other byte stays) is what \<open>EmitString\<close> writes, as for
  the "value" member of a Numeric literal.
\<close>

theorem String_literal_value_verbatim:
  \<open>0 \<le> l \<Longrightarrow>
   Generate_Literal (StringLiteral location) \<lparr>json_file = out, indent_level = l\<rparr>
     = Some \<lparr>json_file = out @ object_text l
               [member_text ''kind'' (quoted ''string''), member_text ''value'' location],
             indent_level = l\<rparr>
   \<and> Generate_Literal (NumericLiteral location) \<lparr>json_file = out, indent_level = l\<rparr>
     = Some \<lparr>json_file = out @ object_text l
               [member_text ''kind'' (quoted ''numeric''),
                member_text ''value'' ([CHR 0x22] @ concat (map escape location) @ [CHR 0x22])],
             indent_level = l\<rparr>
   \<and> EmitString out location = out @ [CHR 0x22] @ concat (map escape location) @ [CHR 0x22]\<close>
  by (simp add: Generate_Literal_run EmitString_eq quoted_def)

text \<open>The amended claim at the source text \<open>"a\"b"\<close>, and \<open>EmitString\<close>
  on a string with a tab, a quote and a backslash.\<close>

theorem String_literal_value_verbatim_witness:
  \<open>(0::int) \<le> 0
   \<and> Generate_Literal (StringLiteral [CHR 0x22, CHR ''a'', CHR 0x5C, CHR 0x22, CHR ''b'', CHR 0x22])
       \<lparr>json_file = [], indent_level = 0\<rparr>
     = Some \<lparr>json_file = ''{\<newline>  "kind": "string",\<newline>  "value": "a''
               @ [CHR 0x5C] @ ''"b"\<newline>}'',
             indent_level = 0\<rparr>
   \<and> EmitString [] [CHR ''a'', CHR 0x09, CHR 0x22, CHR 0x5C]
     = [CHR 0x22, CHR ''a'', CHR 0x09, CHR 0x5C, CHR 0x22, CHR 0x5C, CHR 0x5C, CHR 0x22]\<close>
  using String_literal_value_verbatim
          [of 0 "[CHR 0x22, CHR ''a'', CHR 0x5C, CHR 0x22, CHR ''b'', CHR 0x22]" "[]"]
        String_literal_value_verbatim [of 0 "[CHR ''a'', CHR 0x09, CHR 0x22, CHR 0x5C]" "[]"]
  by (simp add: text_defs)

text \<open>
  Claim C2: the document is one top-level object whose members are, in this order, name,
  library\_dependencies, const\_declarations, enum\_declarations, interface\_declarations,
  struct\_declarations, union\_declarations, declaration\_order and declarations, and
  library\_dependencies is the empty array whatever the library is. The document is
  followed by the newline of \<open>GenerateEOF\<close>.
\<close>

theorem ProduceJSON_members_in_order:
  \<open>ProduceJSON library g =
     Some \<lparr>json_file = json_file g @ object_text 0
        [member_text ''name'' (quoted (library_name library)),
         member_text ''library_dependencies'' ''[]'',
         member_text ''const_declarations''
           (text_of (Generate_vector Generate_Const (const_declarations library)) 1),
         member_text ''enum_declarations''
           (text_of (Generate_vector Generate_Enum (enum_declarations library)) 1),
         member_text ''interface_declarations''
           (text_of (Generate_vector Generate_Interface (interface_declarations library)) 1),
         member_text ''struct_declarations''
           (text_of (Generate_vector Generate_Struct (struct_declarations library)) 1),
         member_text ''union_declarations''
           (text_of (Generate_vector Generate_Union (union_declarations library)) 1),
         member_text ''declaration_order''
           (text_of (Generate_vector Generate_Name (declaration_order library)) 1),
         member_text ''declarations''
           (text_of (GenerateObject (GenerateDeclarationMap library)) 1)]
        @ ''\<newline>'', indent_level = 0\<rparr>\<close>
proof -
  have "text_of (GenerateObject (GenerateDeclarationMap library)) 1
      = object_text 1 (map entry_text (declaration_map_entries library))"
    using GenerateDeclarationMap_object_run [of 1 library "[]"] by (simp add: text_of_def)
  then show ?thesis by (simp add: ProduceJSON_run)
qed

text \<open>
  The document of the library \<open>example\<close>, byte for byte.
\<close>

theorem ProduceJSON_members_in_order_witness:
  \<open>ProduceJSON library_example \<lparr>json_file = [], indent_level = 0\<rparr> =
     Some \<lparr>json_file = ''{\<newline>  "name": "example",\<newline>  "library_dependencies": [],\<newline>  "const_declarations": [],\<newline>  "enum_declarations": [],\<newline>  "interface_declarations": [],\<newline>  "struct_declarations": [\<newline>    {\<newline>      "name": "S",\<newline>      "members": [\<newline>        {\<newline>          "type": {\<newline>            "kind": "primitive",\<newline>            "subtype": "uint32"\<newline>          },\<newline>          "name": "x",\<newline>          "offset": 0\<newline>        }\<newline>      ],\<newline>      "size": 4\<newline>    }\<newline>  ],\<newline>  "union_declarations": [],\<newline>  "declaration_order": [\<newline>    "S"\<newline>  ],\<newline>  "declarations": {\<newline>    "S": "struct"\<newline>  }\<newline>}\<newline>'',
           indent_level = 0\<rparr>\<close>
proof -
  have m: \<open>text_of (Generate_Struct_Member member_x) 4 =
      ''{\<newline>          "type": {\<newline>            "kind": "primitive",\<newline>            "subtype": "uint32"\<newline>          },\<newline>          "name": "x",\<newline>          "offset": 0\<newline>        }''\<close>
    by (simp add: member_x_def text_of_def Generate_Struct_Member_run Generate_Type_run
        text_simps)
  have s: "text_of (Generate_vector Generate_Struct (struct_declarations library_example)) 1
      = array_text 1 [object_text 2
          [member_text ''name'' (quoted ''S''),
           member_text ''members'' (array_text 3 [text_of (Generate_Struct_Member member_x) 4]),
           member_text ''size'' ''4'']]"
    by (simp add: library_example_def text_of_Generate_vector text_of_def [of "Generate_Struct _"]
        Generate_Struct_run LongName_def decimal_digits)
  have e: "text_of (GenerateObject (GenerateDeclarationMap library_example)) 1
      = object_text 1 [member_text ''S'' (quoted ''struct'')]"
    using GenerateDeclarationMap_object_run [of 1 library_example "[]"]
    by (simp add: text_of_def declaration_map_entries_def library_example_def entry_text_def
        LongName_def)
  have o: "text_of (Generate_vector Generate_Name (declaration_order library_example)) 1
      = array_text 1 [quoted ''S'']"
    by (simp add: library_example_def text_of_Generate_vector LongName_def)
  have n: "text_of (Generate_vector Generate_Const (const_declarations library_example)) 1 = ''[]''"
    "text_of (Generate_vector Generate_Enum (enum_declarations library_example)) 1 = ''[]''"
    "text_of (Generate_vector Generate_Interface (interface_declarations library_example)) 1 = ''[]''"
    "text_of (Generate_vector Generate_Union (union_declarations library_example)) 1 = ''[]''"
    "library_name library_example = ''example''"
    by (simp_all add: library_example_def text_of_Generate_vector array_text_def)
  show ?thesis
    using ProduceJSON_members_in_order [of library_example "\<lparr>json_file = [], indent_level = 0\<rparr>"]
    by (simp add: s e o n m text_simps)
qed

text \<open>
  Claim C3: the value of the last member, declarations, is an object with one member
  \<open>"Name": "kind"\<close> per declaration, the Consts first, then the Enums, the
  Interfaces, the Structs and the Unions, each kind in its stored order; for one Const A
  and one Enum B the object is \<open>{"A": "const", "B": "enum"}\<close>, A first.
\<close>

theorem declarations_map_in_kind_order:
  \<open>(\<exists>before. ProduceJSON library g =
       Some \<lparr>json_file = before
                 @ member_text ''declarations''
                     (object_text 1 (map entry_text (declaration_map_entries library)))
                 @ ''\<newline>}\<newline>'',
               indent_level = 0\<rparr>)
   \<and> (map (\<lambda>d. LongName (Const_name d)) (const_declarations library) = [''A'']
        \<and> map (\<lambda>d. LongName (Enum_name d)) (enum_declarations library) = [''B'']
        \<and> interface_declarations library = [] \<and> struct_declarations library = []
        \<and> union_declarations library = []
      \<longrightarrow> object_text 1 (map entry_text (declaration_map_entries library))
          = ''{\<newline>    "A": "const",\<newline>    "B": "enum"\<newline>  }'')\<close>
proof (intro conjI impI)
  show "\<exists>before. ProduceJSON library g =
       Some \<lparr>json_file = before
                 @ member_text ''declarations''
                     (object_text 1 (map entry_text (declaration_map_entries library)))
                 @ ''\<newline>}\<newline>'',
               indent_level = 0\<rparr>"
    unfolding ProduceJSON_run
    by (rule exI [where x = "json_file g @ ''{'' @ newline_indent 1 @ join ('','' @ newline_indent 1)
        [member_text ''name'' (quoted (library_name library)),
         member_text ''library_dependencies'' ''[]'',
         member_text ''const_declarations''
           (text_of (Generate_vector Generate_Const (const_declarations library)) 1),
         member_text ''enum_declarations''
           (text_of (Generate_vector Generate_Enum (enum_declarations library)) 1),
         member_text ''interface_declarations''
           (text_of (Generate_vector Generate_Interface (interface_declarations library)) 1),
         member_text ''struct_declarations''
           (text_of (Generate_vector Generate_Struct (struct_declarations library)) 1),
         member_text ''union_declarations''
           (text_of (Generate_vector Generate_Union (union_declarations library)) 1),
         member_text ''declaration_order''
           (text_of (Generate_vector Generate_Name (declaration_order library)) 1)]
        @ '','' @ newline_indent 1"])
       (simp add: object_text_def [of 0] newline_indent_def [of 0])
next
  assume "map (\<lambda>d. LongName (Const_name d)) (const_declarations library) = [''A'']
        \<and> map (\<lambda>d. LongName (Enum_name d)) (enum_declarations library) = [''B'']
        \<and> interface_declarations library = [] \<and> struct_declarations library = []
        \<and> union_declarations library = []"
  then have "declaration_map_entries library = [(''A'', ''const''), (''B'', ''enum'')]"
    by (auto simp: declaration_map_entries_def)
  then show \<open>object_text 1 (map entry_text (declaration_map_entries library))
          = ''{\<newline>    "A": "const",\<newline>    "B": "enum"\<newline>  }''\<close>
    by (simp add: text_defs eval_nat_numeral)
qed

theorem declarations_map_in_kind_order_witness:
  \<open>map (\<lambda>d. LongName (Const_name d)) (const_declarations library_A_B) = [''A'']
   \<and> map (\<lambda>d. LongName (Enum_name d)) (enum_declarations library_A_B) = [''B'']
   \<and> interface_declarations library_A_B = [] \<and> struct_declarations library_A_B = []
   \<and> union_declarations library_A_B = []
   \<and> (\<exists>before. ProduceJSON library_A_B \<lparr>json_file = [], indent_level = 0\<rparr> =
         Some \<lparr>json_file = before
                 @ ''"declarations": {\<newline>    "A": "const",\<newline>    "B": "enum"\<newline>  }\<newline>}\<newline>'',
               indent_level = 0\<rparr>)\<close>
proof -
  have h: "map (\<lambda>d. LongName (Const_name d)) (const_declarations library_A_B) = [''A'']
   \<and> map (\<lambda>d. LongName (Enum_name d)) (enum_declarations library_A_B) = [''B'']
   \<and> interface_declarations library_A_B = [] \<and> struct_declarations library_A_B = []
   \<and> union_declarations library_A_B = []"
    by (simp add: library_A_B_def LongName_def)
  from declarations_map_in_kind_order [of library_A_B "\<lparr>json_file = [], indent_level = 0\<rparr>"] h
  obtain before where
    "ProduceJSON library_A_B \<lparr>json_file = [], indent_level = 0\<rparr> =
       Some \<lparr>json_file = before
                 @ member_text ''declarations''
                     (object_text 1 (map entry_text (declaration_map_entries library_A_B)))
                 @ ''\<newline>}\<newline>'',
               indent_level = 0\<rparr>"
    and \<open>object_text 1 (map entry_text (declaration_map_entries library_A_B))
          = ''{\<newline>    "A": "const",\<newline>    "B": "enum"\<newline>  }''\<close>
    by blast
  then have \<open>ProduceJSON library_A_B \<lparr>json_file = [], indent_level = 0\<rparr> =
         Some \<lparr>json_file = before
                 @ ''"declarations": {\<newline>    "A": "const",\<newline>    "B": "enum"\<newline>  }\<newline>}\<newline>'',
               indent_level = 0\<rparr>\<close>
    by (simp add: member_text_def quoted_def)
  with h show ?thesis by blast
qed

text \<open>
  Claim C4: a struct member with no default value is written as an object with exactly
  the three keys type, name, offset in that order; one with a default value has exactly
  four keys, maybe\_default\_value between name and offset. An absent optional field
  leaves no key and no null behind, here and in every other object with an optional
  member: the element count of a vector and of a string type, the type of an enum (written
  only when it is primitive), and the request and the response of a method.
\<close>

theorem Struct_Member_keys:
  \<open>0 \<le> l \<Longrightarrow>
   Generate_Struct_Member v \<lparr>json_file = out, indent_level = l\<rparr> =
     Some \<lparr>json_file = out @ object_text l
       (case Struct_Member_maybe_default_value v of
          None \<Rightarrow>
            [member_text ''type'' (text_of (Generate_Type (Struct_Member_type v)) (l + 1)),
             member_text ''name'' (quoted (location_data (Struct_Member_name v))),
             member_text ''offset'' (decimal (unat (Struct_Member_offset v)))]
        | Some default_value \<Rightarrow>
            [member_text ''type'' (text_of (Generate_Type (Struct_Member_type v)) (l + 1)),
             member_text ''name'' (quoted (location_data (Struct_Member_name v))),
             member_text ''maybe_default_value''
               (text_of (Generate_Constant default_value) (l + 1)),
             member_text ''offset'' (decimal (unat (Struct_Member_offset v)))]),
       indent_level = l\<rparr>
   \<and> Generate_Type (VectorType element_type maybe_element_count nullability)
       \<lparr>json_file = out, indent_level = l\<rparr> =
     Some \<lparr>json_file = out @ object_text l
       (case maybe_element_count of
          None \<Rightarrow>
            [member_text ''kind'' (quoted ''vector''),
             member_text ''element_type'' (text_of (Generate_Type element_type) (l + 1)),
             member_text ''nullable'' (boolean_text nullability)]
        | Some element_count \<Rightarrow>
            [member_text ''kind'' (quoted ''vector''),
             member_text ''element_type'' (text_of (Generate_Type element_type) (l + 1)),
             member_text ''maybe_element_count''
               (text_of (Generate_Constant element_count) (l + 1)),
             member_text ''nullable'' (boolean_text nullability)]),
       indent_level = l\<rparr>
   \<and> Generate_Type (StringType maybe_element_count nullability)
       \<lparr>json_file = out, indent_level = l\<rparr> =
     Some \<lparr>json_file = out @ object_text l
       (case maybe_element_count of
          None \<Rightarrow>
            [member_text ''kind'' (quoted ''string''),
             member_text ''nullable'' (boolean_text nullability)]
        | Some element_count \<Rightarrow>
            [member_text ''kind'' (quoted ''string''),
             member_text ''maybe_element_count''
               (text_of (Generate_Constant element_count) (l + 1)),
             member_text ''nullable'' (boolean_text nullability)]),
       indent_level = l\<rparr>
   \<and> Generate_Enum enum_decl \<lparr>json_file = out, indent_level = l\<rparr> =
     Some \<lparr>json_file = out @ object_text l
       (case Enum_type enum_decl of
          PrimitiveType subtype \<Rightarrow>
            [member_text ''name'' (quoted (LongName (Enum_name enum_decl))),
             member_text ''type'' (quoted (PrimitiveSubtypeName subtype)),
             member_text ''members''
               (text_of (Generate_vector Generate_Enum_Member (Enum_members enum_decl)) (l + 1))]
        | _ \<Rightarrow>
            [member_text ''name'' (quoted (LongName (Enum_name enum_decl))),
             member_text ''members''
               (text_of (Generate_vector Generate_Enum_Member (Enum_members enum_decl)) (l + 1))]),
       indent_level = l\<rparr>
   \<and> Generate_Method a_method \<lparr>json_file = out, indent_level = l\<rparr> =
     Some \<lparr>json_file = out @ object_text l
       ([member_text ''ordinal'' (decimal (unat (Method_ordinal a_method))),
         member_text ''name'' (quoted (location_data (Method_name a_method))),
         member_text ''has_request'' (if Method_has_request a_method then ''true'' else ''false'')]
        @ (if Method_has_request a_method
           then [member_text ''maybe_request''
                   (text_of (Generate_vector Generate_Parameter (Method_maybe_request a_method))
                      (l + 1)),
                 member_text ''maybe_request_size''
                   (decimal (unat (Method_maybe_request_size a_method)))]
           else [])
        @ [member_text ''has_response''
             (if Method_has_response a_method then ''true'' else ''false'')]
        @ (if Method_has_response a_method
           then [member_text ''maybe_response''
                   (text_of (Generate_vector Generate_Parameter (Method_maybe_response a_method))
                      (l + 1)),
                 member_text ''maybe_response_size''
                   (decimal (unat (Method_maybe_response_size a_method)))]
           else [])),
       indent_level = l\<rparr>\<close>
proof -
  assume l: "0 \<le> l"
  have m: "Generate_Struct_Member v \<lparr>json_file = out, indent_level = l\<rparr> =
     Some \<lparr>json_file = out @ object_text l
       (case Struct_Member_maybe_default_value v of
          None \<Rightarrow>
            [member_text ''type'' (text_of (Generate_Type (Struct_Member_type v)) (l + 1)),
             member_text ''name'' (quoted (location_data (Struct_Member_name v))),
             member_text ''offset'' (decimal (unat (Struct_Member_offset v)))]
        | Some default_value \<Rightarrow>
            [member_text ''type'' (text_of (Generate_Type (Struct_Member_type v)) (l + 1)),
             member_text ''name'' (quoted (location_data (Struct_Member_name v))),
             member_text ''maybe_default_value''
               (text_of (Generate_Constant default_value) (l + 1)),
             member_text ''offset'' (decimal (unat (Struct_Member_offset v)))]),
       indent_level = l\<rparr>"
    by (cases "Struct_Member_maybe_default_value v")
       (simp_all add: Generate_Struct_Member_run [OF l])
  have vec: "Generate_Type (VectorType element_type maybe_element_count nullability)
       \<lparr>json_file = out, indent_level = l\<rparr> =
     Some \<lparr>json_file = out @ object_text l
       (case maybe_element_count of
          None \<Rightarrow>
            [member_text ''kind'' (quoted ''vector''),
             member_text ''element_type'' (text_of (Generate_Type element_type) (l + 1)),
             member_text ''nullable'' (boolean_text nullability)]
        | Some element_count \<Rightarrow>
            [member_text ''kind'' (quoted ''vector''),
             member_text ''element_type'' (text_of (Generate_Type element_type) (l + 1)),
             member_text ''maybe_element_count''
               (text_of (Generate_Constant element_count) (l + 1)),
             member_text ''nullable'' (boolean_text nullability)]),
       indent_level = l\<rparr>"
    by (cases maybe_element_count) (simp_all add: Generate_Type_run [OF l])
  have str: "Generate_Type (StringType maybe_element_count nullability)
       \<lparr>json_file = out, indent_level = l\<rparr> =
     Some \<lparr>json_file = out @ object_text l
       (case maybe_element_count of
          None \<Rightarrow>
            [member_text ''kind'' (quoted ''string''),
             member_text ''nullable'' (boolean_text nullability)]
        | Some element_count \<Rightarrow>
            [member_text ''kind'' (quoted ''string''),
             member_text ''maybe_element_count''
               (text_of (Generate_Constant element_count) (l + 1)),
             member_text ''nullable'' (boolean_text nullability)]),
       indent_level = l\<rparr>"
    by (cases maybe_element_count) (simp_all add: Generate_Type_run [OF l])
  from m vec str show ?thesis
    by (simp only: Generate_Enum_run [OF l] Generate_Method_run [OF l] simp_thms)
qed

theorem Struct_Member_keys_witness:
  \<open>(0::int) \<le> 0
   \<and> Generate_Struct_Member member_x \<lparr>json_file = [], indent_level = 0\<rparr> =
       Some \<lparr>json_file =
         ''{\<newline>  "type": {\<newline>    "kind": "primitive",\<newline>    "subtype": "uint32"\<newline>  },\<newline>  "name": "x",\<newline>  "offset": 0\<newline>}'',
         indent_level = 0\<rparr>
   \<and> Generate_Struct_Member
         (member_x\<lparr>Struct_Member_maybe_default_value := Some (LiteralConstant TrueLiteral)\<rparr>)
         \<lparr>json_file = [], indent_level = 0\<rparr> =
       Some \<lparr>json_file =
         ''{\<newline>  "type": {\<newline>    "kind": "primitive",\<newline>    "subtype": "uint32"\<newline>  },\<newline>  "name": "x",\<newline>  "maybe_default_value": {\<newline>    "kind": "literal",\<newline>    "literal": {\<newline>      "kind": "true"\<newline>    }\<newline>  },\<newline>  "offset": 0\<newline>}'',
         indent_level = 0\<rparr>
   \<and> Generate_Type (StringType None Nullable) \<lparr>json_file = [], indent_level = 0\<rparr> =
       Some \<lparr>json_file = ''{\<newline>  "kind": "string",\<newline>  "nullable": true\<newline>}'',
             indent_level = 0\<rparr>
   \<and> Generate_Enum enum_E \<lparr>json_file = [], indent_level = 0\<rparr> =
       Some \<lparr>json_file = ''{\<newline>  "name": "E",\<newline>  "members": []\<newline>}'',
             indent_level = 0\<rparr>
   \<and> Generate_Method method_M \<lparr>json_file = [], indent_level = 0\<rparr> =
       Some \<lparr>json_file =
         ''{\<newline>  "ordinal": 1,\<newline>  "name": "M",\<newline>  "has_request": false,\<newline>  "has_response": false\<newline>}'',
         indent_level = 0\<rparr>\<close>
proof -
  have e: "Generate_vector Generate_Enum_Member [] \<lparr>json_file = [], indent_level = 1\<rparr>
      = Some \<lparr>json_file = ''[]'', indent_level = 1\<rparr>"
    using GenerateArray_run [of "[]" Generate_Enum_Member 1 "[]"]
    by (simp add: Generate_vector_def array_text_def)
  have d: "decimal (Suc 0) = ''1''"
    using decimal_digits(2) by simp
  show ?thesis
    using Struct_Member_keys
        [where l = 0 and v = member_x and out = "[]" and maybe_element_count = None
           and nullability = Nullable and element_type = "PrimitiveType Uint32"
           and enum_decl = enum_E and a_method = method_M]
      Struct_Member_keys
        [where l = 0
           and v = "member_x\<lparr>Struct_Member_maybe_default_value := Some (LiteralConstant TrueLiteral)\<rparr>"
           and out = "[]" and maybe_element_count = None
           and nullability = Nullable and element_type = "PrimitiveType Uint32"
           and enum_decl = enum_E and a_method = method_M]
    by (simp add: member_x_def enum_E_def method_M_def e d LongName_def text_of_def
        Generate_Type_run Generate_Constant_run Generate_Literal_run text_simps)
qed

text \<open>
  Claim C5: every object and every array leaves the indent level at its value at entry.
  \<open>GenerateObject\<close> decrements once exactly when its callback has incremented
  once (a first member was written) and not at all when the callback wrote no member;
  a first member increments once and a subsequent member does not; \<open>GenerateArray\<close>
  increments and decrements once exactly when the collection is not empty. Hence every
  \<open>Generate\<close> is balanced, whichever optional members it skips, and
  \<open>ProduceJSON\<close>, which starts at level 0, ends at level 0.
\<close>

theorem indent_level_restored:
  \<open>(\<forall>callback out l g'.
       0 \<le> l \<and> callback \<lparr>json_file = out @ ''{'', indent_level = l\<rparr> = Some g'
         \<and> (indent_level g' = l \<or> indent_level g' = l + 1)
       \<longrightarrow> (\<exists>out'. GenerateObject callback \<lparr>json_file = out, indent_level = l\<rparr>
              = Some \<lparr>json_file = out', indent_level = l\<rparr>))
   \<and> (\<forall>key v out l.
         0 \<le> l \<and> balanced v
         \<longrightarrow> (\<exists>out'. GenerateObjectMember key v First \<lparr>json_file = out, indent_level = l\<rparr>
                = Some \<lparr>json_file = out', indent_level = l + 1\<rparr>)
           \<and> (\<exists>out'. GenerateObjectMember key v Subsequent \<lparr>json_file = out, indent_level = l\<rparr>
                = Some \<lparr>json_file = out', indent_level = l\<rparr>))
   \<and> (\<forall>Generate collection out l.
         0 \<le> l \<and> (\<forall>x\<in>set collection. balanced (Generate x))
         \<longrightarrow> (\<exists>out'. GenerateArray Generate collection \<lparr>json_file = out, indent_level = l\<rparr>
                = Some \<lparr>json_file = out', indent_level = l\<rparr>))
   \<and> balanced (Generate_CompoundIdentifier compound_identifier)
   \<and> balanced (Generate_Literal literal)
   \<and> balanced (Generate_Constant a_constant)
   \<and> balanced (Generate_Type ty)
   \<and> balanced (Generate_Const const_decl)
   \<and> balanced (Generate_Enum enum_decl)
   \<and> balanced (Generate_Enum_Member enum_member)
   \<and> balanced (Generate_Interface interface_decl)
   \<and> balanced (Generate_Method method)
   \<and> balanced (Generate_Parameter parameter)
   \<and> balanced (Generate_Struct struct_decl)
   \<and> balanced (Generate_Struct_Member struct_member)
   \<and> balanced (Generate_Union union_decl)
   \<and> balanced (Generate_Union_Member union_member)
   \<and> balanced (GenerateObject (GenerateDeclarationMap library))
   \<and> (\<exists>document. ProduceJSON library g = Some \<lparr>json_file = document, indent_level = 0\<rparr>)\<close>
proof -
  have object: "\<forall>callback out l g'.
       0 \<le> l \<and> callback \<lparr>json_file = out @ ''{'', indent_level = l\<rparr> = Some g'
         \<and> (indent_level g' = l \<or> indent_level g' = l + 1)
       \<longrightarrow> (\<exists>out'. GenerateObject callback \<lparr>json_file = out, indent_level = l\<rparr>
              = Some \<lparr>json_file = out', indent_level = l\<rparr>)"
    using GenerateObject_restores by blast
  have member: "\<forall>key v out l.
         0 \<le> l \<and> balanced v
         \<longrightarrow> (\<exists>out'. GenerateObjectMember key v First \<lparr>json_file = out, indent_level = l\<rparr>
                = Some \<lparr>json_file = out', indent_level = l + 1\<rparr>)
           \<and> (\<exists>out'. GenerateObjectMember key v Subsequent \<lparr>json_file = out, indent_level = l\<rparr>
                = Some \<lparr>json_file = out', indent_level = l\<rparr>)"
    by (simp add: member_First_run member_Subsequent_run)
  have array: "\<forall>Generate collection out l.
         0 \<le> l \<and> (\<forall>x\<in>set collection. balanced (Generate x))
         \<longrightarrow> (\<exists>out'. GenerateArray Generate collection \<lparr>json_file = out, indent_level = l\<rparr>
                = Some \<lparr>json_file = out', indent_level = l\<rparr>)"
    by (simp add: GenerateArray_run)
  have map: "balanced (GenerateObject (GenerateDeclarationMap library))"
    by (rule balancedI) (rule GenerateDeclarationMap_object_run)
  have document:
    "\<exists>document. ProduceJSON library g = Some \<lparr>json_file = document, indent_level = 0\<rparr>"
    by (simp add: ProduceJSON_run)
  from object member array map document show ?thesis
    by (simp only: balanced_Generate_CompoundIdentifier balanced_Generate_Literal
        balanced_Generate_Constant balanced_Generate_Type balanced_Generate_Const
        balanced_Generate_Enum balanced_Generate_Enum_Member balanced_Generate_Interface
        balanced_Generate_Method balanced_Generate_Parameter balanced_Generate_Struct
        balanced_Generate_Struct_Member balanced_Generate_Union balanced_Generate_Union_Member
        simp_thms)
qed

theorem indent_level_restored_witness:
  \<open>(0::int) \<le> 1
   \<and> skip \<lparr>json_file = ''{'', indent_level = 1\<rparr> = Some \<lparr>json_file = ''{'', indent_level = 1\<rparr>
   \<and> (\<exists>out'. GenerateObject skip \<lparr>json_file = [], indent_level = 1\<rparr>
          = Some \<lparr>json_file = out', indent_level = 1\<rparr>)
   \<and> Generate_Struct_Member member_x \<lparr>json_file = [], indent_level = 1\<rparr> =
       Some \<lparr>json_file =
         ''{\<newline>    "type": {\<newline>      "kind": "primitive",\<newline>      "subtype": "uint32"\<newline>    },\<newline>    "name": "x",\<newline>    "offset": 0\<newline>  }'',
         indent_level = 1\<rparr>\<close>
proof -
  note r = indent_level_restored [where struct_member = member_x]
  have s: "skip \<lparr>json_file = [] @ ''{'', indent_level = 1\<rparr>
             = Some \<lparr>json_file = ''{'', indent_level = 1\<rparr>"
    by (simp add: skip_def)
  from r have "\<forall>callback out l g'.
       0 \<le> l \<and> callback \<lparr>json_file = out @ ''{'', indent_level = l\<rparr> = Some g'
         \<and> (indent_level g' = l \<or> indent_level g' = l + 1)
       \<longrightarrow> (\<exists>out'. GenerateObject callback \<lparr>json_file = out, indent_level = l\<rparr>
              = Some \<lparr>json_file = out', indent_level = l\<rparr>)"
    by (rule conjunct1)
  from this [rule_format, of 1 skip "[]" "\<lparr>json_file = ''{'', indent_level = 1\<rparr>"] s
  have o: "\<exists>out'. GenerateObject skip \<lparr>json_file = [], indent_level = 1\<rparr>
          = Some \<lparr>json_file = out', indent_level = 1\<rparr>"
    by simp
  from r have "balanced (Generate_Struct_Member member_x)" by blast
  then have "Generate_Struct_Member member_x \<lparr>json_file = [], indent_level = 1\<rparr> =
       Some \<lparr>json_file = text_of (Generate_Struct_Member member_x) 1, indent_level = 1\<rparr>"
    by (simp add: balanced_def)
  moreover have \<open>text_of (Generate_Struct_Member member_x) 1 =
         ''{\<newline>    "type": {\<newline>      "kind": "primitive",\<newline>      "subtype": "uint32"\<newline>    },\<newline>    "name": "x",\<newline>    "offset": 0\<newline>  }''\<close>
    by (simp add: member_x_def text_of_def Generate_Struct_Member_run Generate_Type_run
        text_simps)
  ultimately show ?thesis using o s by simp
qed

text \<open>
  Claim C6: a nullable vector type with no element count is written as the object with
  exactly the three keys kind (the string vector), element\_type and nullable (true) in
  that order; and the first member of every Literal, Type and Constant object is kind, a
  string that is the lowercase name of the variant tag: string, numeric, true, false or
  default for a Literal; array, vector, string, handle, request, primitive or identifier
  for a Type; identifier or literal for a Constant.
\<close>

theorem Vector_nullable_kind_first:
  \<open>0 \<le> l \<Longrightarrow>
   Generate_Type (VectorType element_type None Nullable) \<lparr>json_file = out, indent_level = l\<rparr>
     = Some \<lparr>json_file = out @ object_text l
         [member_text ''kind'' (quoted ''vector''),
          member_text ''element_type'' (text_of (Generate_Type element_type) (l + 1)),
          member_text ''nullable'' ''true''],
        indent_level = l\<rparr>
   \<and> (\<exists>members. Generate_Literal literal \<lparr>json_file = out, indent_level = l\<rparr>
         = Some \<lparr>json_file = out @ object_text l
             (member_text ''kind'' (quoted (LiteralKindName (Literal_kind literal))) # members),
            indent_level = l\<rparr>)
   \<and> (\<exists>members. Generate_Type ty \<lparr>json_file = out, indent_level = l\<rparr>
         = Some \<lparr>json_file = out @ object_text l
             (member_text ''kind'' (quoted (TypeKindName (Type_kind ty))) # members),
            indent_level = l\<rparr>)
   \<and> (\<exists>members. Generate_Constant a_constant \<lparr>json_file = out, indent_level = l\<rparr>
         = Some \<lparr>json_file = out @ object_text l
             (member_text ''kind'' (quoted (ConstantKindName (Constant_kind a_constant))) # members),
            indent_level = l\<rparr>)
   \<and> lowercase (LiteralKindName (Literal_kind literal))
   \<and> lowercase (TypeKindName (Type_kind ty))
   \<and> lowercase (ConstantKindName (Constant_kind a_constant))
   \<and> LiteralKindName (Literal_kind literal) =
       (case literal of
          StringLiteral _ \<Rightarrow> ''string'' | NumericLiteral _ \<Rightarrow> ''numeric''
        | TrueLiteral \<Rightarrow> ''true'' | FalseLiteral \<Rightarrow> ''false'' | DefaultLiteral \<Rightarrow> ''default'')
   \<and> TypeKindName (Type_kind ty) =
       (case ty of
          ArrayType _ _ \<Rightarrow> ''array'' | VectorType _ _ _ \<Rightarrow> ''vector''
        | StringType _ _ \<Rightarrow> ''string'' | HandleType _ _ \<Rightarrow> ''handle''
        | RequestType _ _ \<Rightarrow> ''request'' | PrimitiveType _ \<Rightarrow> ''primitive''
        | IdentifierType _ _ \<Rightarrow> ''identifier'')
   \<and> ConstantKindName (Constant_kind a_constant) =
       (case a_constant of
          IdentifierConstant _ \<Rightarrow> ''identifier'' | LiteralConstant _ \<Rightarrow> ''literal'')\<close>
proof -
  assume l: "0 \<le> l"
  have v_eq:
    "Generate_Type (VectorType element_type None Nullable) \<lparr>json_file = out, indent_level = l\<rparr>
     = Some \<lparr>json_file = out @ object_text l
         [member_text ''kind'' (quoted ''vector''),
          member_text ''element_type'' (text_of (Generate_Type element_type) (l + 1)),
          member_text ''nullable'' ''true''],
        indent_level = l\<rparr>"
    by (simp add: Generate_Type_run [OF l] boolean_text_def)
  have l_ex: "\<exists>members. Generate_Literal literal \<lparr>json_file = out, indent_level = l\<rparr>
         = Some \<lparr>json_file = out @ object_text l
             (member_text ''kind'' (quoted (LiteralKindName (Literal_kind literal))) # members),
            indent_level = l\<rparr>"
    by (intro exI) (rule Generate_Literal_run [OF l])
  have t_ex: "\<exists>members. Generate_Type ty \<lparr>json_file = out, indent_level = l\<rparr>
         = Some \<lparr>json_file = out @ object_text l
             (member_text ''kind'' (quoted (TypeKindName (Type_kind ty))) # members),
            indent_level = l\<rparr>"
    by (intro exI) (rule Generate_Type_run [OF l])
  have c_ex: "\<exists>members. Generate_Constant a_constant \<lparr>json_file = out, indent_level = l\<rparr>
         = Some \<lparr>json_file = out @ object_text l
             (member_text ''kind'' (quoted (ConstantKindName (Constant_kind a_constant))) # members),
            indent_level = l\<rparr>"
    by (intro exI) (rule Generate_Constant_run [OF l])
  from v_eq l_ex t_ex c_ex kind_names lowercase_names show ?thesis
    by blast
qed

theorem Vector_nullable_kind_first_witness:
  \<open>(0::int) \<le> 0
   \<and> Generate_Type (VectorType (PrimitiveType Uint8) None Nullable)
       \<lparr>json_file = [], indent_level = 0\<rparr>
     = Some \<lparr>json_file =
         ''{\<newline>  "kind": "vector",\<newline>  "element_type": {\<newline>    "kind": "primitive",\<newline>    "subtype": "uint8"\<newline>  },\<newline>  "nullable": true\<newline>}'',
        indent_level = 0\<rparr>
   \<and> lowercase (TypeKindName (Type_kind (PrimitiveType Uint8)))
   \<and> LiteralKindName (Literal_kind TrueLiteral) = ''true''
   \<and> TypeKindName (Type_kind (PrimitiveType Uint8)) = ''primitive''
   \<and> ConstantKindName (Constant_kind (LiteralConstant TrueLiteral)) = ''literal''
   \<and> (\<exists>members. Generate_Constant (LiteralConstant TrueLiteral)
         \<lparr>json_file = [], indent_level = 0\<rparr>
       = Some \<lparr>json_file = object_text 0 (member_text ''kind'' (quoted ''literal'') # members),
               indent_level = 0\<rparr>)\<close>
proof -
  have \<open>text_of (Generate_Type (PrimitiveType Uint8)) 1
      = ''{\<newline>    "kind": "primitive",\<newline>    "subtype": "uint8"\<newline>  }''\<close>
    by (simp add: text_of_def Generate_Type_run text_simps)
  with Vector_nullable_kind_first
         [where l = 0 and element_type = "PrimitiveType Uint8" and out = "[]"
            and literal = TrueLiteral and ty = "PrimitiveType Uint8"
            and a_constant = "LiteralConstant TrueLiteral"]
  show ?thesis by (simp add: text_simps)
qed

text \<open>
  Claim C7: the members of a Type object, variant by variant. Every variant but Array and
  Primitive ends with the member nullable, whose value is \<open>true\<close> for a
  nullable type and \<open>false\<close> otherwise; Array and Primitive have no such
  member.
\<close>

theorem nullable_member_per_variant:
  \<open>0 \<le> l \<Longrightarrow>
   Generate_Type ty \<lparr>json_file = out, indent_level = l\<rparr> =
     Some \<lparr>json_file = out @ object_text l
       (case ty of
          ArrayType element_type element_count \<Rightarrow>
            [member_text ''kind'' (quoted ''array''),
             member_text ''element_type'' (text_of (Generate_Type element_type) (l + 1)),
             member_text ''element_count'' (text_of (Generate_Constant element_count) (l + 1))]
        | VectorType element_type None nullability \<Rightarrow>
            [member_text ''kind'' (quoted ''vector''),
             member_text ''element_type'' (text_of (Generate_Type element_type) (l + 1)),
             member_text ''nullable'' (boolean_text nullability)]
        | VectorType element_type (Some element_count) nullability \<Rightarrow>
            [member_text ''kind'' (quoted ''vector''),
             member_text ''element_type'' (text_of (Generate_Type element_type) (l + 1)),
             member_text ''maybe_element_count''
               (text_of (Generate_Constant element_count) (l + 1)),
             member_text ''nullable'' (boolean_text nullability)]
        | StringType None nullability \<Rightarrow>
            [member_text ''kind'' (quoted ''string''),
             member_text ''nullable'' (boolean_text nullability)]
        | StringType (Some element_count) nullability \<Rightarrow>
            [member_text ''kind'' (quoted ''string''),
             member_text ''maybe_element_count''
               (text_of (Generate_Constant element_count) (l + 1)),
             member_text ''nullable'' (boolean_text nullability)]
        | HandleType subtype nullability \<Rightarrow>
            [member_text ''kind'' (quoted ''handle''),
             member_text ''subtype'' (quoted (HandleSubtypeName subtype)),
             member_text ''nullable'' (boolean_text nullability)]
        | RequestType subtype nullability \<Rightarrow>
            [member_text ''kind'' (quoted ''request''),
             member_text ''subtype'' (text_of (Generate_CompoundIdentifier subtype) (l + 1)),
             member_text ''nullable'' (boolean_text nullability)]
        | PrimitiveType subtype \<Rightarrow>
            [member_text ''kind'' (quoted ''primitive''),
             member_text ''subtype'' (quoted (PrimitiveSubtypeName subtype))]
        | IdentifierType identifier nullability \<Rightarrow>
            [member_text ''kind'' (quoted ''identifier''),
             member_text ''identifier''
               (text_of (Generate_CompoundIdentifier identifier) (l + 1)),
             member_text ''nullable'' (boolean_text nullability)]),
       indent_level = l\<rparr>
   \<and> boolean_text Nullable = ''true'' \<and> boolean_text Nonnullable = ''false''\<close>
  by (simp add: Generate_Type_run boolean_text_def split: Type.split option.split)

theorem nullable_member_per_variant_witness:
  \<open>(0::int) \<le> 0
   \<and> Generate_Type (HandleType Channel Nonnullable) \<lparr>json_file = [], indent_level = 0\<rparr>
     = Some \<lparr>json_file =
         ''{\<newline>  "kind": "handle",\<newline>  "subtype": "channel",\<newline>  "nullable": false\<newline>}'',
        indent_level = 0\<rparr>
   \<and> Generate_Type (PrimitiveType Bool) \<lparr>json_file = [], indent_level = 0\<rparr>
     = Some \<lparr>json_file = ''{\<newline>  "kind": "primitive",\<newline>  "subtype": "bool"\<newline>}'',
        indent_level = 0\<rparr>\<close>
  using nullable_member_per_variant [of 0 "HandleType Channel Nonnullable" "[]"]
    nullable_member_per_variant [of 0 "PrimitiveType Bool" "[]"]
  by (simp add: text_simps)

text \<open>
  Claim C8: for every library the document ends with the closing brace of the top-level
  object, on a line of its own, followed by exactly one newline.
\<close>

theorem document_ends_with_one_newline:
  \<open>\<exists>body. ProduceJSON library g =
     Some \<lparr>json_file = json_file g @ ''{'' @ body @ ''\<newline>}\<newline>'', indent_level = 0\<rparr>\<close>
  unfolding ProduceJSON_run
  by (rule exI [where x = "newline_indent 1 @ join ('','' @ newline_indent 1)
        [member_text ''name'' (quoted (library_name library)),
         member_text ''library_dependencies'' ''[]'',
         member_text ''const_declarations''
           (text_of (Generate_vector Generate_Const (const_declarations library)) 1),
         member_text ''enum_declarations''
           (text_of (Generate_vector Generate_Enum (enum_declarations library)) 1),
         member_text ''interface_declarations''
           (text_of (Generate_vector Generate_Interface (interface_declarations library)) 1),
         member_text ''struct_declarations''
           (text_of (Generate_vector Generate_Struct (struct_declarations library)) 1),
         member_text ''union_declarations''
           (text_of (Generate_vector Generate_Union (union_declarations library)) 1),
         member_text ''declaration_order''
           (text_of (Generate_vector Generate_Name (declaration_order library)) 1),
         member_text ''declarations''
           (object_text 1 (map entry_text (declaration_map_entries library)))]"])
     (simp add: object_text_def [of 0] newline_indent_def [of 0])

text \<open>
  Claim C10: a compound identifier is written by the array rule as an array of strings,
  one per component in sequence order, not as one dotted string.
\<close>

theorem CompoundIdentifier_array_of_strings:
  \<open>0 \<le> l \<Longrightarrow>
   Generate_CompoundIdentifier v \<lparr>json_file = out, indent_level = l\<rparr>
     = Some \<lparr>json_file = out @ array_text l (map (\<lambda>i. quoted (location_data i)) (components v)),
             indent_level = l\<rparr>\<close>
  using balanced_run [OF balanced_Generate_CompoundIdentifier, of l v out]
  by (simp add: text_of_Generate_CompoundIdentifier)

theorem CompoundIdentifier_array_of_strings_witness:
  \<open>(0::int) \<le> 0
   \<and> Generate_CompoundIdentifier (CompoundIdentifier [Identifier ''a'', Identifier ''b''])
       \<lparr>json_file = [], indent_level = 0\<rparr>
     = Some \<lparr>json_file = ''[\<newline>  "a",\<newline>  "b"\<newline>]'', indent_level = 0\<rparr>
   \<and> Generate_CompoundIdentifier (CompoundIdentifier [Identifier ''a'', Identifier ''b''])
       \<lparr>json_file = [], indent_level = 0\<rparr>
     \<noteq> Some \<lparr>json_file = ''"a.b"'', indent_level = 0\<rparr>\<close>
  using CompoundIdentifier_array_of_strings
          [of 0 "CompoundIdentifier [Identifier ''a'', Identifier ''b'']" "[]"]
  by (simp add: text_simps)

end
